theory Spec2Isabelle
  imports Complex_Main
begin

chapter \<open>BookCourier server: authorization and entity lifecycle\<close>

text \<open>
  A shallow embedding of the route handlers of the BookCourier REST server: login
  with automatic provisioning, the book catalog, the order lifecycle, invoices and
  user administration. The handlers are those of the last variant of \<open>index.js\<close>
  (allow-lists from the environment, no \<open>try\<close> blocks outside login, every route
  registered inside \<open>run()\<close>); where an earlier variant differs it is said at the
  definition, and the librarian routes of the first variant, which are registered
  outside \<open>run()\<close>, have definitions of their own. The identity provider is outside
  the model: a handler receives the verified email (and subject id) of its
  principal. The document store is modelled by three lists of documents and the
  handful of collection operations the handlers call. The store assigns every
  document its \<open>_id\<close>; a request body that brings an \<open>_id\<close> of its own is not
  modelled.
\<close>

section \<open>Values carried by requests and documents\<close>

text \<open>
  The handlers of BookCourier read fields of JSON request bodies and of stored
  documents without validating them. A field value is therefore any JSON value
  (a scalar, an array, or an object with its members in order), or absent
  (\<open>JUndef\<close>, JavaScript's \<open>undefined\<close>). Numbers are the rationals denoted by
  the parsed JSON numbers; the handlers only ever test them for being zero.
\<close>

datatype jv =
    JUndef | JNull | JBool bool | JNum rat | JStr string
  | JArr "jv list" | JObj "(string \<times> jv) list"

text \<open>
  JavaScript truthiness, as used by \<open>a || b\<close>: every array and every object is
  truthy, the empty ones too.
\<close>

fun truthy :: "jv \<Rightarrow> bool" where
  "truthy JUndef = False"
| "truthy JNull = False"
| "truthy (JBool b) = b"
| "truthy (JNum n) = (n \<noteq> 0)"
| "truthy (JStr s) = (s \<noteq> [])"
| "truthy (JArr xs) = True"
| "truthy (JObj kvs) = True"

text \<open>
  The store's equality filter \<open>{ field: "text" }\<close> on a stored field: the field
  is that string, or it is an array with that string among its members.
\<close>

fun fieldIs :: "jv \<Rightarrow> string \<Rightarrow> bool" where
  "fieldIs (JStr t) s = (t = s)"
| "fieldIs (JArr xs) s = (JStr s \<in> set xs)"
| "fieldIs v s = False"

text \<open>\<open>a || b\<close>: the left operand when it is truthy, the right one otherwise.\<close>

definition jor :: "jv \<Rightarrow> jv \<Rightarrow> jv" where
  "jor a b = (if truthy a then a else b)"

text \<open>
  The driver writes a field given as \<open>undefined\<close> in a \<open>$set\<close> document as BSON
  null (the client is created without \<open>ignoreUndefined\<close>).
\<close>

fun serialize :: "jv \<Rightarrow> jv" where
  "serialize JUndef = JNull"
| "serialize v = v"

subsection \<open>Object ids\<close>

text \<open>
  An ObjectId is represented by what \<open>toString()\<close> prints for it: 24 lower-case
  hexadecimal digits. \<open>ObjectId\<close> is the driver's constructor applied to a string,
  as in the current BSON library: it accepts 24 hexadecimal digits of either case and
  throws on anything else (\<open>None\<close>). Earlier versions of the library also take a
  string of 12 characters as the 12 bytes of an id; the theorems about claims below
  speak only of strings the constructor accepts here and of concrete strings that
  every version rejects.
\<close>

type_synonym oid = string

definition lowerTable :: "(char \<times> char) list" where
  "lowerTable = zip ''ABCDEFGHIJKLMNOPQRSTUVWXYZ'' ''abcdefghijklmnopqrstuvwxyz''"

definition upperTable :: "(char \<times> char) list" where
  "upperTable = zip ''abcdefghijklmnopqrstuvwxyz'' ''ABCDEFGHIJKLMNOPQRSTUVWXYZ''"

definition toLowerChar :: "char \<Rightarrow> char" where
  "toLowerChar c = (case map_of lowerTable c of Some d \<Rightarrow> d | None \<Rightarrow> c)"

definition toUpperChar :: "char \<Rightarrow> char" where
  "toUpperChar c = (case map_of upperTable c of Some d \<Rightarrow> d | None \<Rightarrow> c)"

text \<open>\<open>String.prototype.toUpperCase\<close> on ASCII text (ids are ASCII).\<close>

definition toUpperCase :: "string \<Rightarrow> string" where
  "toUpperCase s = map toUpperChar s"

definition isHex :: "char \<Rightarrow> bool" where
  "isHex c = (c \<in> set ''0123456789abcdefABCDEF'')"

definition ObjectId :: "string \<Rightarrow> oid option" where
  "ObjectId s =
     (if length s = 24 \<and> list_all isHex s then Some (map toLowerChar s) else None)"

text \<open>
  The constructor applied to an unvalidated field value: a string is parsed as above;
  \<open>undefined\<close>, \<open>null\<close> and numbers make the driver generate a new id, which
  equals no stored id (\<open>Fresh\<close>); an object is taken for an id-like value and its
  member \<open>id\<close> must be a string, which is then parsed; any other value throws.
\<close>

datatype ctor = Throws | Fresh | Parsed oid

fun ObjectIdOf :: "jv \<Rightarrow> ctor" where
  "ObjectIdOf (JStr s) = (case ObjectId s of None \<Rightarrow> Throws | Some i \<Rightarrow> Parsed i)"
| "ObjectIdOf JUndef = Fresh"
| "ObjectIdOf JNull = Fresh"
| "ObjectIdOf (JNum n) = Fresh"
| "ObjectIdOf (JBool b) = Throws"
| "ObjectIdOf (JArr xs) = Throws"
| "ObjectIdOf (JObj kvs) =
     (case map_of kvs ''id'' of
        Some (JStr s) \<Rightarrow> (case ObjectId s of None \<Rightarrow> Throws | Some i \<Rightarrow> Parsed i)
      | _ \<Rightarrow> Throws)"

text \<open>\<open>s.slice(-n)\<close>: the last \<open>n\<close> characters, the whole string when it is shorter.\<close>

definition sliceLast :: "nat \<Rightarrow> string \<Rightarrow> string" where
  "sliceLast n s = drop (length s - n) s"

section \<open>Documents and the store\<close>

record user =
  user_id :: oid
  uid :: string
  user_email :: string
  name :: jv
  profileImage :: jv
  role :: jv
  user_createdAt :: nat

record book =
  book_id :: oid
  title :: jv
  author :: jv
  price :: jv
  description :: jv
  book_status :: jv
  librarianEmail :: string
  book_createdAt :: nat

record order =
  order_id :: oid
  bookId :: jv
  order_email :: string
  order_status :: string
  paymentStatus :: string
  order_price :: jv
  bookTitle :: jv
  order_createdAt :: nat

text \<open>
  A collection is the list of its documents in insertion order, which is the order
  in which an unsorted \<open>find\<close> returns them and \<open>findOne\<close> searches them.
\<close>

record store =
  users :: "user list"
  books :: "book list"
  orders :: "order list"

definition emptyStore :: store where
  "emptyStore = \<lparr>users = [], books = [], orders = []\<rparr>"

text \<open>
  What a handler does with a request: the reply it sends, or \<open>Thrown\<close> when an
  exception leaves the handler and no reply is sent by it.
\<close>

datatype 'a reply = Ok 'a | BadRequest | Forbidden | NotFound | ServerError | Thrown

subsection \<open>Collection primitives\<close>

text \<open>\<open>insertOne\<close>: the collection's unique index on \<open>_id\<close> rejects a duplicate id.\<close>

definition insertOne :: "('a \<Rightarrow> oid) \<Rightarrow> 'a \<Rightarrow> 'a list \<Rightarrow> 'a list option" where
  "insertOne idOf d xs = (if idOf d \<in> set (map idOf xs) then None else Some (xs @ [d]))"

text \<open>\<open>findOne\<close> is \<^const>\<open>find\<close>: the first document that satisfies the filter.\<close>

text \<open>
  \<open>updateOne\<close>: applies the update to the first match and reports
  \<open>modifiedCount\<close>, which is 0 when the update leaves the document as it was.
\<close>

fun updateOne :: "('a \<Rightarrow> bool) \<Rightarrow> ('a \<Rightarrow> 'a) \<Rightarrow> 'a list \<Rightarrow> 'a list \<times> nat" where
  "updateOne P f [] = ([], 0)"
| "updateOne P f (x # xs) =
     (if P x then (f x # xs, if f x = x then 0 else 1)
      else (x # fst (updateOne P f xs), snd (updateOne P f xs)))"

text \<open>\<open>deleteOne\<close>: removes the first match and reports \<open>deletedCount\<close>.\<close>

fun deleteOne :: "('a \<Rightarrow> bool) \<Rightarrow> 'a list \<Rightarrow> 'a list \<times> nat" where
  "deleteOne P [] = ([], 0)"
| "deleteOne P (x # xs) =
     (if P x then (xs, 1) else (x # fst (deleteOne P xs), snd (deleteOne P xs)))"

text \<open>\<open>deleteMany\<close>: removes every match.\<close>

definition deleteMany :: "('a \<Rightarrow> bool) \<Rightarrow> 'a list \<Rightarrow> 'a list" where
  "deleteMany P xs = filter (\<lambda>x. \<not> P x) xs"

subsection \<open>Role gate\<close>

text \<open>
  Every gated handler starts with
  \<^verbatim>\<open>const user = await users.findOne({ email: req.decoded_email });
  if (!user || user.role !== "librarian") return res.status(403)...\<close>
\<close>

definition hasRole :: "store \<Rightarrow> string \<Rightarrow> string \<Rightarrow> bool" where
  "hasRole s email r =
     (case find (\<lambda>u. user_email u = email) (users s) of
        None \<Rightarrow> False
      | Some u \<Rightarrow> role u = JStr r)"

section \<open>Identity provisioning: POST /auth/firebase-login\<close>

text \<open>
  The allow-lists are literals in the earlier variants and read from the environment
  in the last one; they are a parameter here.
\<close>

record config =
  adminEmails :: "string list"
  librarianEmails :: "string list"

definition literalConfig :: config where
  "literalConfig = \<lparr>adminEmails = [''admin@gmail.com''],
                     librarianEmails = [''librarian@gmail.com'']\<rparr>"

definition assignRole :: "config \<Rightarrow> string \<Rightarrow> string" where
  "assignRole cfg email =
     (if email \<in> set (adminEmails cfg) then ''admin''
      else if email \<in> set (librarianEmails cfg) then ''librarian''
      else ''user'')"

text \<open>
  \<open>nm\<close> and \<open>picture\<close> are the two fields destructured from \<open>req.body.user || {}\<close>;
  \<open>now\<close> is the clock and \<open>nid\<close> the id the driver generates for the insert. An
  exception inside the handler's \<open>try\<close> block gives the reply 500.
\<close>

definition loginOrCreate ::
  "config \<Rightarrow> store \<Rightarrow> string \<Rightarrow> string \<Rightarrow> jv \<Rightarrow> jv \<Rightarrow> nat \<Rightarrow> oid \<Rightarrow> user reply \<times> store" where
  "loginOrCreate cfg s email subj nm picture now nid =
     (case find (\<lambda>u. user_email u = email) (users s) of
        None \<Rightarrow>
          (let newUser = \<lparr>user_id = nid, uid = subj, user_email = email,
                          name = jor nm (JStr ''Anonymous''),
                          profileImage = jor picture (JStr ''''),
                          role = JStr (assignRole cfg email),
                          user_createdAt = now\<rparr>
           in case insertOne user_id newUser (users s) of
                None \<Rightarrow> (ServerError, s)
              | Some us \<Rightarrow> (Ok newUser, s\<lparr>users := us\<rparr>))
      | Some u \<Rightarrow> (Ok u, s))"

section \<open>Book catalog\<close>

text \<open>The fields of a request body that a book document keeps.\<close>

record book_body =
  bb_title :: jv
  bb_author :: jv
  bb_price :: jv
  bb_description :: jv
  bb_status :: jv

text \<open>
  POST /books:
  \<^verbatim>\<open>const book = { ...req.body, createdAt: new Date(), librarianEmail: req.decoded_email };\<close>
  The handler has no \<open>try\<close> block, so a failing insert leaves it as an exception.
\<close>

definition publishCandidate ::
  "store \<Rightarrow> string \<Rightarrow> book_body \<Rightarrow> nat \<Rightarrow> oid \<Rightarrow> oid reply \<times> store" where
  "publishCandidate s email body now nid =
     (let b = \<lparr>book_id = nid, title = bb_title body, author = bb_author body,
                price = bb_price body, description = bb_description body,
                book_status = bb_status body, librarianEmail = email,
                book_createdAt = now\<rparr>
      in case insertOne book_id b (books s) of
           None \<Rightarrow> (Thrown, s)
         | Some bs \<Rightarrow> (Ok nid, s\<lparr>books := bs\<rparr>))"

text \<open>
  GET /books: \<^verbatim>\<open>books.find({ status: "published" }).toArray()\<close>
  A book's \<open>status\<close> is whatever POST /books and the two status updates stored, so
  the filter is the store's equality filter on an arbitrary value.
\<close>

definition listPublished :: "store \<Rightarrow> book list" where
  "listPublished s = filter (\<lambda>b. fieldIs (book_status b) ''published'') (books s)"

text \<open>
  \<open>.sort({ createdAt: -1 })\<close>: descending by creation time. The order among equal
  timestamps is left open by the store; the model fixes one.
\<close>

definition sortDesc :: "book list \<Rightarrow> book list" where
  "sortDesc bs = rev (sort_key book_createdAt bs)"

text \<open>
  GET /books/latest:
  \<^verbatim>\<open>books.find({ status: "published" }).sort({ createdAt: -1 }).limit(6).toArray()\<close>
\<close>

definition listLatestPublished :: "store \<Rightarrow> book list" where
  "listLatestPublished s = take 6 (sortDesc (listPublished s))"

text \<open>The fields PATCH /librarian/books/:id destructures from the body.\<close>

record book_patch =
  bp_status :: jv
  bp_title :: jv
  bp_author :: jv
  bp_price :: jv
  bp_description :: jv

definition applyPatch :: "book_patch \<Rightarrow> book \<Rightarrow> book" where
  "applyPatch pt b =
     b\<lparr>book_status := serialize (bp_status pt), title := serialize (bp_title pt),
       author := serialize (bp_author pt), price := serialize (bp_price pt),
       description := serialize (bp_description pt)\<rparr>"

text \<open>
  PATCH /librarian/books/:id:
  \<^verbatim>\<open>books.updateOne({ _id: new ObjectId(req.params.id), librarianEmail: req.decoded_email },
                   { $set: { status, title, author, price, description } })\<close>
  The reply carries \<open>modifiedCount > 0\<close>. This is the handler of the variants that
  register the route inside \<open>run()\<close>.
\<close>

definition updateOwned ::
  "store \<Rightarrow> string \<Rightarrow> string \<Rightarrow> book_patch \<Rightarrow> bool reply \<times> store" where
  "updateOwned s email p pt =
     (if \<not> hasRole s email ''librarian'' then (Forbidden, s)
      else case ObjectId p of
             None \<Rightarrow> (Thrown, s)
           | Some i \<Rightarrow>
               (let r = updateOne (\<lambda>b. book_id b = i \<and> librarianEmail b = email)
                          (applyPatch pt) (books s)
                in (Ok (snd r > 0), s\<lparr>books := fst r\<rparr>)))"

text \<open>
  The first variant (\<open>index.js\<close> with the literal allow-lists) registers its
  librarian routes at module level, after the body of \<open>run()\<close> has ended:
  \<^verbatim>\<open>run().catch(console.error);
  ...
  app.patch('/librarian/books/:id', verifyFBToken, async (req, res) => {
    const requester = await users.findOne({ email: req.decoded_email });\<close>
  \<open>users\<close>, \<open>books\<close> and \<open>orders\<close> are constants of the \<open>try\<close> block inside
  \<open>run()\<close> and are not in scope there, so the first statement of each of these
  handlers throws a ReferenceError, for every request: no reply is sent and the
  store is not touched.
\<close>

definition outsideRun :: "store \<Rightarrow> 'a reply \<times> store" where
  "outsideRun s = (Thrown, s)"

text \<open>PATCH /librarian/books/:id of the first variant.\<close>

definition updateOwnedFirstVariant ::
  "store \<Rightarrow> string \<Rightarrow> string \<Rightarrow> book_patch \<Rightarrow> bool reply \<times> store" where
  "updateOwnedFirstVariant s email p pt = outsideRun s"

text \<open>PATCH /admin/books/:id/status: \<^verbatim>\<open>{ $set: { status } }\<close>, any value.\<close>

definition setStatus :: "store \<Rightarrow> string \<Rightarrow> string \<Rightarrow> jv \<Rightarrow> bool reply \<times> store" where
  "setStatus s email p st =
     (if \<not> hasRole s email ''admin'' then (Forbidden, s)
      else case ObjectId p of
             None \<Rightarrow> (Thrown, s)
           | Some i \<Rightarrow>
               (let r = updateOne (\<lambda>b. book_id b = i)
                          (\<lambda>b. b\<lparr>book_status := serialize st\<rparr>) (books s)
                in (Ok (snd r > 0), s\<lparr>books := fst r\<rparr>)))"

text \<open>
  DELETE /admin/books/:id:
  \<^verbatim>\<open>const bookId = req.params.id;
  await orders.deleteMany({ bookId });
  const result = await books.deleteOne({ _id: new ObjectId(bookId) });
  res.send({ success: result.deletedCount > 0 });\<close>
  The orders are matched by the store's equality filter on the parameter as a
  string, the book on the id the constructor parses from it; the orders are already
  deleted when the constructor throws on a malformed parameter.
\<close>

definition deleteCascade :: "store \<Rightarrow> string \<Rightarrow> string \<Rightarrow> bool reply \<times> store" where
  "deleteCascade s email p =
     (if \<not> hasRole s email ''admin'' then (Forbidden, s)
      else
        (let s1 = s\<lparr>orders := deleteMany (\<lambda>od. fieldIs (bookId od) p) (orders s)\<rparr>
         in case ObjectId p of
              None \<Rightarrow> (Thrown, s1)
            | Some i \<Rightarrow>
                (let r = deleteOne (\<lambda>b. book_id b = i) (books s1)
                 in (Ok (snd r > 0), s1\<lparr>books := fst r\<rparr>))))"

section \<open>Order lifecycle\<close>

text \<open>The fields of a request body that an order document keeps or overrides.\<close>

record order_body =
  ob_bookId :: jv
  ob_price :: jv
  ob_bookTitle :: jv
  ob_email :: jv
  ob_status :: jv
  ob_paymentStatus :: jv
  ob_createdAt :: jv

text \<open>
  POST /orders:
  \<^verbatim>\<open>const order = { ...req.body, email: req.decoded_email, status: "pending",
                  paymentStatus: "unpaid", createdAt: new Date() };\<close>
  The four fields written after the spread replace whatever the body carried.
\<close>

definition newOrder :: "string \<Rightarrow> order_body \<Rightarrow> nat \<Rightarrow> oid \<Rightarrow> order" where
  "newOrder email body now nid =
     \<lparr>order_id = nid, bookId = ob_bookId body, order_email = email,
      order_status = ''pending'', paymentStatus = ''unpaid'',
      order_price = ob_price body, bookTitle = ob_bookTitle body,
      order_createdAt = now\<rparr>"

definition place ::
  "store \<Rightarrow> string \<Rightarrow> order_body \<Rightarrow> nat \<Rightarrow> oid \<Rightarrow> oid reply \<times> store" where
  "place s email body now nid =
     (case insertOne order_id (newOrder email body now nid) (orders s) of
        None \<Rightarrow> (Thrown, s)
      | Some os \<Rightarrow> (Ok nid, s\<lparr>orders := os\<rparr>))"

text \<open>GET /users/my-orders\<close>

definition listMine :: "store \<Rightarrow> string \<Rightarrow> order list" where
  "listMine s email = filter (\<lambda>od. order_email od = email) (orders s)"

text \<open>
  PUT /users/cancel/:id and PUT /users/pay/:id share their shape:
  \<^verbatim>\<open>const order = await orders.findOne({ _id: new ObjectId(req.params.id) });
  if (!order || order.email !== req.decoded_email) return res.status(403).send({ success: false });
  const result = await orders.updateOne({ _id: new ObjectId(req.params.id) }, { $set: ... });
  res.send({ success: result.modifiedCount > 0 });\<close>
\<close>

definition ownOrderUpdate ::
  "(order \<Rightarrow> order) \<Rightarrow> store \<Rightarrow> string \<Rightarrow> string \<Rightarrow> bool reply \<times> store" where
  "ownOrderUpdate f s email p =
     (case ObjectId p of
        None \<Rightarrow> (Thrown, s)
      | Some i \<Rightarrow>
          (case find (\<lambda>od. order_id od = i) (orders s) of
             None \<Rightarrow> (Forbidden, s)
           | Some od \<Rightarrow>
               if order_email od \<noteq> email then (Forbidden, s)
               else (let r = updateOne (\<lambda>od. order_id od = i) f (orders s)
                     in (Ok (snd r > 0), s\<lparr>orders := fst r\<rparr>))))"

definition cancel :: "store \<Rightarrow> string \<Rightarrow> string \<Rightarrow> bool reply \<times> store" where
  "cancel = ownOrderUpdate (\<lambda>od. od\<lparr>order_status := ''cancelled''\<rparr>)"

definition pay :: "store \<Rightarrow> string \<Rightarrow> string \<Rightarrow> bool reply \<times> store" where
  "pay = ownOrderUpdate (\<lambda>od. od\<lparr>paymentStatus := ''paid''\<rparr>)"

text \<open>
  \<^verbatim>\<open>books.findOne({ _id: new ObjectId(o.bookId) })\<close> on an order's unvalidated
  \<open>bookId\<close>: \<open>None\<close> when the constructor throws, otherwise the book found, if any.
\<close>

definition lookupBook :: "book list \<Rightarrow> jv \<Rightarrow> book option option" where
  "lookupBook bs v =
     (case ObjectIdOf v of
        Throws \<Rightarrow> None
      | Fresh \<Rightarrow> Some None
      | Parsed i \<Rightarrow> Some (find (\<lambda>b. book_id b = i) bs))"

text \<open>
  An order refers to the book with id \<open>i\<close> when that lookup asks the store for
  \<open>i\<close>: the invoices, the librarian's order list and the status update all resolve
  an order's book this way.
\<close>

definition refersTo :: "order \<Rightarrow> oid \<Rightarrow> bool" where
  "refersTo od i = (ObjectIdOf (bookId od) = Parsed i)"

record invoice =
  inv_id :: string
  paymentId :: string
  inv_bookTitle :: jv
  amount :: jv
  date :: nat

text \<open>
  \<^verbatim>\<open>return { _id: o._id.toString(),
           paymentId: o._id.toString().slice(-8).toUpperCase(),
           bookTitle: book?.title || o.bookTitle || "Unknown",
           amount: o.price || 0,
           date: o.createdAt };\<close>
\<close>

definition invoiceOf :: "book list \<Rightarrow> order \<Rightarrow> invoice option" where
  "invoiceOf bs od =
     (case lookupBook bs (bookId od) of
        None \<Rightarrow> None
      | Some bk \<Rightarrow>
          Some \<lparr>inv_id = order_id od,
                paymentId = toUpperCase (sliceLast 8 (order_id od)),
                inv_bookTitle =
                  jor (jor (case bk of None \<Rightarrow> JUndef | Some b \<Rightarrow> title b) (bookTitle od))
                      (JStr ''Unknown''),
                amount = jor (order_price od) (JNum 0),
                date = order_createdAt od\<rparr>)"

text \<open>\<open>Promise.all\<close>: every result in order, or the rejection of one of them.\<close>

fun promiseAll :: "'a option list \<Rightarrow> 'a list option" where
  "promiseAll [] = Some []"
| "promiseAll (None # rs) = None"
| "promiseAll (Some x # rs) = map_option ((#) x) (promiseAll rs)"

text \<open>
  GET /users/invoices (last variant, no \<open>try\<close> block):
  \<^verbatim>\<open>const userOrders = await orders.find({ email: req.decoded_email, paymentStatus: "paid" }).toArray();
  const invoices = await Promise.all(userOrders.map(async (o) => { ... }));\<close>
\<close>

definition paidOrders :: "store \<Rightarrow> string \<Rightarrow> order list" where
  "paidOrders s email =
     filter (\<lambda>od. order_email od = email \<and> paymentStatus od = ''paid'') (orders s)"

definition invoicesFor :: "store \<Rightarrow> string \<Rightarrow> invoice list reply" where
  "invoicesFor s email =
     (case promiseAll (map (invoiceOf (books s)) (paidOrders s email)) of
        None \<Rightarrow> Thrown
      | Some invs \<Rightarrow> Ok invs)"

definition validStatus :: "string list" where
  "validStatus = [''pending'', ''shipped'', ''delivered'']"

text \<open>
  PATCH /librarian/orders/:id/status:
  \<^verbatim>\<open>const { status } = req.body;
  if (!validStatus.includes(status)) return res.status(400)...
  const order = await orders.findOne({ _id: new ObjectId(req.params.id) });
  if (!order) return res.status(404)...
  const book = await books.findOne({ _id: new ObjectId(order.bookId) });
  if (book.librarianEmail !== req.decoded_email) return res.status(403)...
  const result = await orders.updateOne({ _id: new ObjectId(req.params.id) }, { $set: { status } });\<close>
  \<open>book\<close> is \<open>null\<close> when no book has the order's \<open>bookId\<close>; reading
  \<open>book.librarianEmail\<close> then throws a TypeError.
\<close>

definition updateStatus :: "store \<Rightarrow> string \<Rightarrow> string \<Rightarrow> jv \<Rightarrow> bool reply \<times> store" where
  "updateStatus s email p status =
     (if \<not> hasRole s email ''librarian'' then (Forbidden, s)
      else case status of
        JStr st \<Rightarrow>
          if st \<notin> set validStatus then (BadRequest, s)
          else (case ObjectId p of
                  None \<Rightarrow> (Thrown, s)
                | Some i \<Rightarrow>
                    (case find (\<lambda>od. order_id od = i) (orders s) of
                       None \<Rightarrow> (NotFound, s)
                     | Some od \<Rightarrow>
                         (case lookupBook (books s) (bookId od) of
                            None \<Rightarrow> (Thrown, s)
                          | Some None \<Rightarrow> (Thrown, s)
                          | Some (Some b) \<Rightarrow>
                              if librarianEmail b \<noteq> email then (Forbidden, s)
                              else (let r = updateOne (\<lambda>od. order_id od = i)
                                              (\<lambda>od. od\<lparr>order_status := st\<rparr>) (orders s)
                                    in (Ok (snd r > 0), s\<lparr>orders := fst r\<rparr>)))))
      | _ \<Rightarrow> (BadRequest, s))"

text \<open>
  PATCH /librarian/orders/:id/status of the first variant, registered outside
  \<open>run()\<close> like its other librarian routes.
\<close>

definition updateStatusFirstVariant ::
  "store \<Rightarrow> string \<Rightarrow> string \<Rightarrow> jv \<Rightarrow> bool reply \<times> store" where
  "updateStatusFirstVariant s email p status = outsideRun s"

section \<open>User administration\<close>

text \<open>
  PATCH /admin/users/:id/role:
  \<^verbatim>\<open>users.updateOne({ _id: new ObjectId(req.params.id) }, { $set: { role: req.body.role } })\<close>
\<close>

definition updateRole :: "store \<Rightarrow> string \<Rightarrow> string \<Rightarrow> jv \<Rightarrow> bool reply \<times> store" where
  "updateRole s email p r =
     (if \<not> hasRole s email ''admin'' then (Forbidden, s)
      else case ObjectId p of
             None \<Rightarrow> (Thrown, s)
           | Some i \<Rightarrow>
               (let res = updateOne (\<lambda>u. user_id u = i)
                            (\<lambda>u. u\<lparr>role := serialize r\<rparr>) (users s)
                in (Ok (snd res > 0), s\<lparr>users := fst res\<rparr>)))"

section \<open>Requests and reachable stores\<close>

datatype request =
    Login string string jv jv nat oid
  | PostBook string book_body nat oid
  | PatchBook string string book_patch
  | SetBookStatus string string jv
  | DeleteBook string string
  | PostOrder string order_body nat oid
  | CancelOrder string string
  | PayOrder string string
  | PatchOrderStatus string string jv
  | PatchRole string string jv

text \<open>The store after a request has been handled.\<close>

fun exec :: "config \<Rightarrow> store \<Rightarrow> request \<Rightarrow> store" where
  "exec cfg s (Login e u n p t i) = snd (loginOrCreate cfg s e u n p t i)"
| "exec cfg s (PostBook e b t i) = snd (publishCandidate s e b t i)"
| "exec cfg s (PatchBook e p pt) = snd (updateOwned s e p pt)"
| "exec cfg s (SetBookStatus e p st) = snd (setStatus s e p st)"
| "exec cfg s (DeleteBook e p) = snd (deleteCascade s e p)"
| "exec cfg s (PostOrder e b t i) = snd (place s e b t i)"
| "exec cfg s (CancelOrder e p) = snd (cancel s e p)"
| "exec cfg s (PayOrder e p) = snd (pay s e p)"
| "exec cfg s (PatchOrderStatus e p st) = snd (updateStatus s e p st)"
| "exec cfg s (PatchRole e p r) = snd (updateRole s e p r)"

definition run :: "config \<Rightarrow> store \<Rightarrow> request list \<Rightarrow> store" where
  "run cfg s rs = foldl (exec cfg) s rs"

definition validRoles :: "jv set" where
  "validRoles = {JStr ''user'', JStr ''librarian'', JStr ''admin''}"

definition rolesOk :: "store \<Rightarrow> bool" where
  "rolesOk s = list_all (\<lambda>u. role u \<in> validRoles) (users s)"

text \<open>A role-update request that carries one of the three role names.\<close>

fun roleRequestOk :: "request \<Rightarrow> bool" where
  "roleRequestOk (PatchRole e p r) = (r \<in> validRoles)"
| "roleRequestOk _ = True"

text \<open>The unique index on \<open>_id\<close> of each collection.\<close>

definition uniqueIds :: "store \<Rightarrow> bool" where
  "uniqueIds s =
     (distinct (map user_id (users s)) \<and> distinct (map book_id (books s))
      \<and> distinct (map order_id (orders s)))"

section \<open>A sample store\<close>

text \<open>
  Three users (one of each role), three books and two orders. The second order
  names a book id that no book has: POST /orders stores \<open>bookId\<close> as it arrives.
\<close>

definition adminUser :: user where
  "adminUser = \<lparr>user_id = ''65a1b2c3d4e5f60718293a01'', uid = ''uid-admin'',
                 user_email = ''admin@gmail.com'', name = JStr ''Ada'',
                 profileImage = JStr '''', role = JStr ''admin'', user_createdAt = 1\<rparr>"

definition librarianUser :: user where
  "librarianUser = \<lparr>user_id = ''65a1b2c3d4e5f60718293a02'', uid = ''uid-lib'',
                     user_email = ''librarian@gmail.com'', name = JStr ''Lee'',
                     profileImage = JStr '''', role = JStr ''librarian'', user_createdAt = 2\<rparr>"

definition readerUser :: user where
  "readerUser = \<lparr>user_id = ''65a1b2c3d4e5f60718293a03'', uid = ''uid-reader'',
                  user_email = ''reader@example.com'', name = JStr ''Rae'',
                  profileImage = JStr '''', role = JStr ''user'', user_createdAt = 3\<rparr>"

definition bookA :: book where
  "bookA = \<lparr>book_id = ''65a1b2c3d4e5f60718293b01'', title = JStr ''Dune'',
             author = JStr ''Herbert'', price = JNum 20, description = JStr ''sand'',
             book_status = JStr ''published'', librarianEmail = ''librarian@gmail.com'',
             book_createdAt = 10\<rparr>"

definition bookB :: book where
  "bookB = \<lparr>book_id = ''65a1b2c3d4e5f60718293b02'', title = JStr ''Emma'',
             author = JStr ''Austen'', price = JNum 12, description = JStr ''match'',
             book_status = JStr ''draft'', librarianEmail = ''other@example.com'',
             book_createdAt = 20\<rparr>"

definition bookC :: book where
  "bookC = \<lparr>book_id = ''65a1b2c3d4e5f60718293b03'', title = JStr ''Ulysses'',
             author = JStr ''Joyce'', price = JNum 15, description = JStr ''day'',
             book_status = JStr ''published'', librarianEmail = ''other@example.com'',
             book_createdAt = 30\<rparr>"

definition orderA :: order where
  "orderA = \<lparr>order_id = ''65a1b2c3d4e5f60718293c01'',
              bookId = JStr ''65a1b2c3d4e5f60718293b01'',
              order_email = ''reader@example.com'', order_status = ''delivered'',
              paymentStatus = ''unpaid'', order_price = JNum 20, bookTitle = JStr ''Dune'',
              order_createdAt = 40\<rparr>"

definition orderB :: order where
  "orderB = \<lparr>order_id = ''65a1b2c3d4e5f60718293c02'',
              bookId = JStr ''65a1b2c3d4e5f60718293bff'',
              order_email = ''reader@example.com'', order_status = ''pending'',
              paymentStatus = ''unpaid'', order_price = JUndef, bookTitle = JUndef,
              order_createdAt = 50\<rparr>"

definition sampleStore :: store where
  "sampleStore = \<lparr>users = [adminUser, librarianUser, readerUser],
                   books = [bookA, bookB, bookC],
                   orders = [orderA, orderB]\<rparr>"

definition samplePatch :: book_patch where
  "samplePatch = \<lparr>bp_status = JStr ''published'', bp_title = JStr ''Dune II'',
                   bp_author = JUndef, bp_price = JNum 25, bp_description = JUndef\<rparr>"

text \<open>A body that tries to set the fields POST /orders overrides.\<close>

definition sampleOrderBody :: order_body where
  "sampleOrderBody = \<lparr>ob_bookId = JStr ''65a1b2c3d4e5f60718293b01'', ob_price = JNum 20,
                       ob_bookTitle = JStr ''Dune'', ob_email = JStr ''admin@gmail.com'',
                       ob_status = JStr ''delivered'', ob_paymentStatus = JStr ''paid'',
                       ob_createdAt = JNum 0\<rparr>"

text \<open>A catalog with one draft and seven published books, created out of order.\<close>

definition shelf :: "book list" where
  "shelf = map (\<lambda>(i, t). bookA\<lparr>book_id := i, book_createdAt := t\<rparr>)
     [(''65a1b2c3d4e5f60718293b11'', 13), (''65a1b2c3d4e5f60718293b12'', 19),
      (''65a1b2c3d4e5f60718293b13'', 11), (''65a1b2c3d4e5f60718293b14'', 17),
      (''65a1b2c3d4e5f60718293b15'', 15), (''65a1b2c3d4e5f60718293b16'', 18),
      (''65a1b2c3d4e5f60718293b17'', 14)]"

definition shelfStore :: store where
  "shelfStore = sampleStore\<lparr>books := bookB # shelf\<rparr>"

text \<open>
  A body for POST /books whose \<open>status\<close> is an array, and the store in which the
  sample librarian has posted it.
\<close>

definition taggedBody :: book_body where
  "taggedBody = \<lparr>bb_title = JStr ''Persuasion'', bb_author = JStr ''Austen'',
                  bb_price = JNum 9, bb_description = JStr ''letters'',
                  bb_status = JArr [JStr ''published'', JStr ''featured'']\<rparr>"

definition taggedStore :: store where
  "taggedStore =
     snd (publishCandidate sampleStore ''librarian@gmail.com'' taggedBody 70
            ''65a1b2c3d4e5f60718293b21'')"

text \<open>First logins of the admin and of a reader, on an empty store.\<close>

definition bootstrap :: "request list" where
  "bootstrap =
     [Login ''admin@gmail.com'' ''uid-admin'' (JStr ''Ada'') JUndef 1 ''65a1b2c3d4e5f60718293a01'',
      Login ''reader@example.com'' ''uid-reader'' (JStr ''Rae'') JUndef 3 ''65a1b2c3d4e5f60718293a03'']"

lemmas sample_defs =
  sampleStore_def adminUser_def librarianUser_def readerUser_def
  bookA_def bookB_def bookC_def orderA_def orderB_def

lemmas id_defs = ObjectId_def isHex_def toLowerChar_def lowerTable_def

section \<open>Facts about the collection primitives\<close>

lemma find_append_case:
  "find P (xs @ ys) = (case find P xs of None \<Rightarrow> find P ys | Some x \<Rightarrow> Some x)"
  by (induction xs) auto

lemma updateOne_no_match:
  "\<forall>x\<in>set xs. \<not> P x \<Longrightarrow> updateOne P f xs = (xs, 0)"
  by (induction xs) auto

lemma updateOne_modified_match:
  "0 < snd (updateOne P f xs) \<Longrightarrow> \<exists>x\<in>set xs. P x"
  by (induction xs) (auto split: if_splits)

lemma updateOne_map_key:
  "(\<And>x. k (f x) = k x) \<Longrightarrow> map k (fst (updateOne P f xs)) = map k xs"
  by (induction xs) auto

lemma updateOne_find:
  "find P xs = Some x \<Longrightarrow> P (f x) \<Longrightarrow> find P (fst (updateOne P f xs)) = Some (f x)"
  by (induction xs) (auto split: if_splits)

lemma updateOne_idem:
  "(\<And>x. f (f x) = f x) \<Longrightarrow> (\<And>x. P (f x) = P x) \<Longrightarrow>
     updateOne P f (fst (updateOne P f xs)) = (fst (updateOne P f xs), 0)"
  by (induction xs) auto

lemma updateOne_set:
  "y \<in> set (fst (updateOne P f xs)) \<Longrightarrow> y \<in> set xs \<or> (\<exists>x\<in>set xs. P x \<and> y = f x)"
  by (induction xs) (auto split: if_splits)

lemma deleteOne_distinct:
  "distinct (map k xs) \<Longrightarrow>
     deleteOne (\<lambda>x. k x = i) xs = (filter (\<lambda>x. k x \<noteq> i) xs, if i \<in> k ` set xs then 1 else 0)"
proof (induction xs)
  case Nil
  then show ?case by simp
next
  case (Cons x xs)
  show ?case
  proof (cases "k x = i")
    case True
    from Cons.prems have "k x \<notin> k ` set xs" by simp
    with True have "\<forall>y\<in>set xs. k y \<noteq> i" by (metis imageI)
    then have "filter (\<lambda>x. k x \<noteq> i) xs = xs" by (simp add: filter_id_conv)
    with True show ?thesis by simp
  next
    case False
    with Cons show ?thesis by auto
  qed
qed

lemma deleteOne_subset:
  "set (fst (deleteOne P xs)) \<subseteq> set xs"
  by (induction xs) auto

lemma deleteOne_distinct_keep:
  "distinct (map k xs) \<Longrightarrow> distinct (map k (fst (deleteOne P xs)))"
proof (induction xs)
  case Nil
  then show ?case by simp
next
  case (Cons x xs)
  have "k ` set (fst (deleteOne P xs)) \<subseteq> k ` set xs"
    using deleteOne_subset[of P xs] by blast
  with Cons show ?case by auto
qed

section \<open>Identity provisioning\<close>

text \<open>
  C1. First login with an email that no user has inserts exactly one user, appended
  to the collection, with the role taken from the allow-lists (admin first, then
  librarian, else user), the name defaulting to "Anonymous" and the profile image to
  the empty string; that user is the reply, and every later login with the email
  returns the same record and leaves the store as it is. Login with an email that a
  user already has returns that user and changes nothing. The id \<open>nid\<close> that the
  driver generates for the insert is new to the collection.
\<close>

theorem loginOrCreate_spec:
  "(email \<notin> user_email ` set (users s) \<and> nid \<notin> user_id ` set (users s) \<longrightarrow>
      (\<exists>u. loginOrCreate cfg s email subj nm picture now nid
              = (Ok u, s\<lparr>users := users s @ [u]\<rparr>)
          \<and> user_email u = email
          \<and> role u = JStr (if email \<in> set (adminEmails cfg) then ''admin''
                           else if email \<in> set (librarianEmails cfg) then ''librarian''
                           else ''user'')
          \<and> name u = (if truthy nm then nm else JStr ''Anonymous'')
          \<and> profileImage u = (if truthy picture then picture else JStr '''')
          \<and> (\<forall>nm' picture' now' nid'.
                loginOrCreate cfg (s\<lparr>users := users s @ [u]\<rparr>) email subj nm' picture' now' nid'
                  = (Ok u, s\<lparr>users := users s @ [u]\<rparr>))))
   \<and> (email \<in> user_email ` set (users s) \<longrightarrow>
        (\<exists>u \<in> set (users s). user_email u = email
           \<and> loginOrCreate cfg s email subj nm picture now nid = (Ok u, s)))"
proof (intro conjI impI)
  assume a: "email \<notin> user_email ` set (users s) \<and> nid \<notin> user_id ` set (users s)"
  then have f: "find (\<lambda>u. user_email u = email) (users s) = None"
    by (auto simp: find_None_iff)
  define u where "u = \<lparr>user_id = nid, uid = subj, user_email = email,
                          name = jor nm (JStr ''Anonymous''),
                          profileImage = jor picture (JStr ''''),
                          role = JStr (assignRole cfg email),
                          user_createdAt = now\<rparr>"
  have 1: "loginOrCreate cfg s email subj nm picture now nid
             = (Ok u, s\<lparr>users := users s @ [u]\<rparr>)"
    using a f by (simp add: loginOrCreate_def insertOne_def u_def Let_def)
  have f2: "find (\<lambda>u. user_email u = email) (users s @ [u]) = Some u"
    using f by (simp add: find_append_case u_def)
  have 2: "\<forall>nm' picture' now' nid'.
                loginOrCreate cfg (s\<lparr>users := users s @ [u]\<rparr>) email subj nm' picture' now' nid'
                  = (Ok u, s\<lparr>users := users s @ [u]\<rparr>)"
    using f2 by (simp add: loginOrCreate_def)
  show "\<exists>u. loginOrCreate cfg s email subj nm picture now nid
              = (Ok u, s\<lparr>users := users s @ [u]\<rparr>)
          \<and> user_email u = email
          \<and> role u = JStr (if email \<in> set (adminEmails cfg) then ''admin''
                           else if email \<in> set (librarianEmails cfg) then ''librarian''
                           else ''user'')
          \<and> name u = (if truthy nm then nm else JStr ''Anonymous'')
          \<and> profileImage u = (if truthy picture then picture else JStr '''')
          \<and> (\<forall>nm' picture' now' nid'.
                loginOrCreate cfg (s\<lparr>users := users s @ [u]\<rparr>) email subj nm' picture' now' nid'
                  = (Ok u, s\<lparr>users := users s @ [u]\<rparr>))"
    apply (rule exI[of _ u])
    using 1 2 by (simp add: u_def assignRole_def jor_def)
next
  assume "email \<in> user_email ` set (users s)"
  then obtain u where u: "find (\<lambda>u. user_email u = email) (users s) = Some u"
    by (cases "find (\<lambda>u. user_email u = email) (users s)") (auto simp: find_None_iff)
  then have "u \<in> set (users s) \<and> user_email u = email"
    by (auto simp: find_Some_iff)
  then show "\<exists>u \<in> set (users s). user_email u = email
           \<and> loginOrCreate cfg s email subj nm picture now nid = (Ok u, s)"
    using u by (auto simp: loginOrCreate_def)
qed

theorem loginOrCreate_spec_witness:
  "(''librarian@gmail.com'' \<notin> user_email ` set (users emptyStore)
      \<and> ''65a1b2c3d4e5f60718293a02'' \<notin> user_id ` set (users emptyStore)
      \<and> (\<exists>u. loginOrCreate literalConfig emptyStore ''librarian@gmail.com'' ''uid-lib''
                 JUndef (JStr ''pic.png'') 2 ''65a1b2c3d4e5f60718293a02''
               = (Ok u, emptyStore\<lparr>users := [u]\<rparr>)
             \<and> role u = JStr ''librarian'' \<and> name u = JStr ''Anonymous''
             \<and> profileImage u = JStr ''pic.png''))
   \<and> (''admin@gmail.com'' \<in> user_email ` set (users sampleStore)
      \<and> loginOrCreate literalConfig sampleStore ''admin@gmail.com'' ''uid-admin''
            (JStr ''Eve'') JUndef 99 ''65a1b2c3d4e5f60718293aff''
          = (Ok adminUser, sampleStore))"
proof -
  have h1: "''librarian@gmail.com'' \<notin> user_email ` set (users emptyStore)
      \<and> ''65a1b2c3d4e5f60718293a02'' \<notin> user_id ` set (users emptyStore)"
    by (simp add: emptyStore_def)
  have h2: "''admin@gmail.com'' \<in> user_email ` set (users sampleStore)"
    by (simp add: sample_defs)
  from h1 loginOrCreate_spec[where s = emptyStore and email = "''librarian@gmail.com''"
      and nid = "''65a1b2c3d4e5f60718293a02''" and cfg = literalConfig and subj = "''uid-lib''"
      and nm = JUndef and picture = "JStr ''pic.png''" and now = 2]
  have c1: "\<exists>u. loginOrCreate literalConfig emptyStore ''librarian@gmail.com'' ''uid-lib''
                 JUndef (JStr ''pic.png'') 2 ''65a1b2c3d4e5f60718293a02''
               = (Ok u, emptyStore\<lparr>users := [u]\<rparr>)
             \<and> role u = JStr ''librarian'' \<and> name u = JStr ''Anonymous''
             \<and> profileImage u = JStr ''pic.png''"
    by (simp add: emptyStore_def literalConfig_def) blast
  from h2 loginOrCreate_spec[where s = sampleStore and email = "''admin@gmail.com''"
      and nid = "''65a1b2c3d4e5f60718293aff''" and cfg = literalConfig and subj = "''uid-admin''"
      and nm = "JStr ''Eve''" and picture = JUndef and now = 99]
  have c2: "loginOrCreate literalConfig sampleStore ''admin@gmail.com'' ''uid-admin''
            (JStr ''Eve'') JUndef 99 ''65a1b2c3d4e5f60718293aff''
          = (Ok adminUser, sampleStore)"
    by (simp add: sample_defs)
  from h1 h2 c1 c2 show ?thesis by blast
qed

section \<open>Book catalog: cascade delete and owned update\<close>

text \<open>
  What the handler does, for every store with unique book ids: when an admin calls
  it with a parameter the ObjectId constructor accepts, the reply is sent, the
  orders that the equality filter matches on the parameter as a string are gone,
  the book with the parsed id is gone, and everything else is as it was.
\<close>

lemma deleteCascade_effect:
  assumes "hasRole s email ''admin''" and "ObjectId p = Some i"
    and "distinct (map book_id (books s))"
  shows "deleteCascade s email p
           = (Ok (i \<in> book_id ` set (books s)),
              s\<lparr>orders := filter (\<lambda>od. \<not> fieldIs (bookId od) p) (orders s),
                books := filter (\<lambda>b. book_id b \<noteq> i) (books s)\<rparr>)"
  using assms by (simp add: deleteCascade_def deleteMany_def deleteOne_distinct Let_def)

lemma deleteCascade_canonical_sample:
  "deleteCascade sampleStore ''admin@gmail.com'' ''65a1b2c3d4e5f60718293b01''
     = (Ok True, sampleStore\<lparr>books := [bookB, bookC], orders := [orderB]\<rparr>)"
  by (simp add: deleteCascade_def deleteMany_def hasRole_def id_defs sample_defs)

text \<open>
  C2. The claim says that after deleteCascade no order refers to the deleted book.
  The handler matches the orders on the request parameter as a string, but deletes
  the book under the id parsed from it, and the constructor reads hexadecimal digits
  of either case. Called by the admin with the id of the sample store's first book
  written in upper case, it deletes the book and replies success, and the first
  order, which refers to that book, is still in the store.
\<close>

theorem deleteCascade_leaves_order:
  "hasRole sampleStore ''admin@gmail.com'' ''admin''
   \<and> book_id bookA = ''65a1b2c3d4e5f60718293b01''
   \<and> refersTo orderA (book_id bookA)
   \<and> deleteCascade sampleStore ''admin@gmail.com'' ''65A1B2C3D4E5F60718293B01''
       = (Ok True, sampleStore\<lparr>books := [bookB, bookC]\<rparr>)
   \<and> books (snd (deleteCascade sampleStore ''admin@gmail.com'' ''65A1B2C3D4E5F60718293B01''))
       = [bookB, bookC]
   \<and> orders (snd (deleteCascade sampleStore ''admin@gmail.com'' ''65A1B2C3D4E5F60718293B01''))
       = [orderA, orderB]"
  by (simp add: deleteCascade_def deleteMany_def hasRole_def refersTo_def id_defs sample_defs)

text \<open>
  The librarian routes of the first variant never reach the store.
\<close>

lemma updateOwnedFirstVariant_throws:
  "updateOwnedFirstVariant s email p pt = (Thrown, s)"
  by (simp add: updateOwnedFirstVariant_def outsideRun_def)

lemma updateStatusFirstVariant_throws:
  "updateStatusFirstVariant s email p status = (Thrown, s)"
  by (simp add: updateStatusFirstVariant_def outsideRun_def)

text \<open>
  C4 (as stated). The claim covers every book id whose book does not exist. In the
  variants that register the route inside \<open>run()\<close>, for the id below, which is not
  a well-formed ObjectId, the constructor throws before the store is asked, and the
  handler sends no reply at all, so it does not return false. No variant checks the
  id.
\<close>

theorem updateOwned_malformed_id_counterexample:
  "hasRole sampleStore ''librarian@gmail.com'' ''librarian''
   \<and> ''not-a-book-id'' \<notin> book_id ` set (books sampleStore)
   \<and> fst (updateOwned sampleStore ''librarian@gmail.com'' ''not-a-book-id'' samplePatch) = Thrown
   \<and> fst (updateOwned sampleStore ''librarian@gmail.com'' ''not-a-book-id'' samplePatch) \<noteq> Ok False"
  by (simp add: updateOwned_def hasRole_def ObjectId_def sample_defs)

text \<open>
  C4 (amended). In the variants that register the route inside \<open>run()\<close>: for every
  librarian and every well-formed book id whose book does not exist or belongs to
  another librarian, updateOwned replies false and leaves the whole store as it was;
  it replies true only when a book with that id owned by the librarian exists.
  Nothing is said here of the first variant, whose route is registered outside
  \<open>run()\<close> and throws on every request (\<open>updateOwnedFirstVariant\<close>).
\<close>

theorem updateOwned_spec:
  "(hasRole s email ''librarian'' \<and> ObjectId p = Some i
      \<and> \<not> (\<exists>b\<in>set (books s). book_id b = i \<and> librarianEmail b = email)
      \<longrightarrow> updateOwned s email p pt = (Ok False, s))
   \<and> (updateOwned s email p pt = (Ok True, s')
      \<longrightarrow> (\<exists>j b. ObjectId p = Some j \<and> b \<in> set (books s) \<and> book_id b = j
                 \<and> librarianEmail b = email))"
proof (intro conjI impI)
  assume a: "hasRole s email ''librarian'' \<and> ObjectId p = Some i
      \<and> \<not> (\<exists>b\<in>set (books s). book_id b = i \<and> librarianEmail b = email)"
  then have "updateOne (\<lambda>b. book_id b = i \<and> librarianEmail b = email) (applyPatch pt) (books s)
      = (books s, 0)"
    by (intro updateOne_no_match) auto
  with a show "updateOwned s email p pt = (Ok False, s)"
    by (simp add: updateOwned_def)
next
  assume a: "updateOwned s email p pt = (Ok True, s')"
  then obtain j where j: "ObjectId p = Some j"
    by (cases "ObjectId p") (auto simp: updateOwned_def split: if_splits)
  with a have "0 < snd (updateOne (\<lambda>b. book_id b = j \<and> librarianEmail b = email)
                          (applyPatch pt) (books s))"
    by (auto simp: updateOwned_def Let_def split: if_splits)
  from updateOne_modified_match[OF this] j
  show "\<exists>j b. ObjectId p = Some j \<and> b \<in> set (books s) \<and> book_id b = j
                 \<and> librarianEmail b = email"
    by auto
qed

theorem updateOwned_spec_witness:
  "(hasRole sampleStore ''librarian@gmail.com'' ''librarian''
      \<and> ObjectId ''65a1b2c3d4e5f60718293b02'' = Some ''65a1b2c3d4e5f60718293b02''
      \<and> \<not> (\<exists>b\<in>set (books sampleStore). book_id b = ''65a1b2c3d4e5f60718293b02''
                \<and> librarianEmail b = ''librarian@gmail.com'')
      \<and> updateOwned sampleStore ''librarian@gmail.com'' ''65a1b2c3d4e5f60718293b02'' samplePatch
          = (Ok False, sampleStore))
   \<and> (updateOwned sampleStore ''librarian@gmail.com'' ''65a1b2c3d4e5f60718293b01'' samplePatch
          = (Ok True, sampleStore\<lparr>books := [applyPatch samplePatch bookA, bookB, bookC]\<rparr>)
      \<and> (\<exists>j b. ObjectId ''65a1b2c3d4e5f60718293b01'' = Some j \<and> b \<in> set (books sampleStore)
               \<and> book_id b = j \<and> librarianEmail b = ''librarian@gmail.com''))"
proof -
  have h1: "hasRole sampleStore ''librarian@gmail.com'' ''librarian''"
    by (simp add: hasRole_def sample_defs)
  have h2: "ObjectId ''65a1b2c3d4e5f60718293b02'' = Some ''65a1b2c3d4e5f60718293b02''"
    by (simp add: id_defs)
  have h3: "\<not> (\<exists>b\<in>set (books sampleStore). book_id b = ''65a1b2c3d4e5f60718293b02''
                \<and> librarianEmail b = ''librarian@gmail.com'')"
    by (simp add: sample_defs)
  have h4: "updateOwned sampleStore ''librarian@gmail.com'' ''65a1b2c3d4e5f60718293b01'' samplePatch
          = (Ok True, sampleStore\<lparr>books := [applyPatch samplePatch bookA, bookB, bookC]\<rparr>)"
    by (simp add: updateOwned_def hasRole_def id_defs sample_defs applyPatch_def samplePatch_def)
  note t = updateOwned_spec[where s = sampleStore and email = "''librarian@gmail.com''"
      and pt = samplePatch]
  from h1 h2 h3 t[where p = "''65a1b2c3d4e5f60718293b02''"]
  have c1: "updateOwned sampleStore ''librarian@gmail.com'' ''65a1b2c3d4e5f60718293b02'' samplePatch
          = (Ok False, sampleStore)"
    by blast
  from h4 t[where p = "''65a1b2c3d4e5f60718293b01''"]
  have c2: "\<exists>j b. ObjectId ''65a1b2c3d4e5f60718293b01'' = Some j \<and> b \<in> set (books sampleStore)
               \<and> book_id b = j \<and> librarianEmail b = ''librarian@gmail.com''"
    by blast
  from h1 h2 h3 h4 c1 c2 show ?thesis by blast
qed

section \<open>Orders: placing, paying and cancelling\<close>

text \<open>
  C5. For every principal and request body, an order that \<open>place\<close> adds to the
  store has status pending, payment status unpaid, the principal's email and the
  handler's clock reading as creation time, whatever the body carried in those
  fields; and with a driver-generated id new to the collection exactly one such order
  is appended, keeping the body's \<open>bookId\<close> and \<open>price\<close>.
\<close>

theorem place_spec:
  "(\<forall>od \<in> set (orders (snd (place s email body now nid))) - set (orders s).
       order_status od = ''pending'' \<and> paymentStatus od = ''unpaid''
       \<and> order_email od = email \<and> order_createdAt od = now)
   \<and> (nid \<notin> order_id ` set (orders s) \<longrightarrow>
        (\<exists>od. place s email body now nid = (Ok nid, s\<lparr>orders := orders s @ [od]\<rparr>)
            \<and> order_id od = nid
            \<and> order_status od = ''pending'' \<and> paymentStatus od = ''unpaid''
            \<and> order_email od = email \<and> order_createdAt od = now
            \<and> bookId od = ob_bookId body \<and> order_price od = ob_price body))"
  by (auto simp: place_def insertOne_def newOrder_def)

theorem place_spec_witness:
  "''65a1b2c3d4e5f60718293c03'' \<notin> order_id ` set (orders sampleStore)
   \<and> ob_status sampleOrderBody = JStr ''delivered''
   \<and> ob_paymentStatus sampleOrderBody = JStr ''paid''
   \<and> ob_email sampleOrderBody = JStr ''admin@gmail.com''
   \<and> (\<exists>od. place sampleStore ''reader@example.com'' sampleOrderBody 60 ''65a1b2c3d4e5f60718293c03''
            = (Ok ''65a1b2c3d4e5f60718293c03'', sampleStore\<lparr>orders := [orderA, orderB, od]\<rparr>)
          \<and> od \<in> set (orders (snd (place sampleStore ''reader@example.com'' sampleOrderBody 60
                                     ''65a1b2c3d4e5f60718293c03''))) - set (orders sampleStore)
          \<and> order_status od = ''pending'' \<and> paymentStatus od = ''unpaid''
          \<and> order_email od = ''reader@example.com'' \<and> order_createdAt od = 60)"
proof -
  have h1: "''65a1b2c3d4e5f60718293c03'' \<notin> order_id ` set (orders sampleStore)"
    by (simp add: sample_defs)
  have h2: "ob_status sampleOrderBody = JStr ''delivered''
   \<and> ob_paymentStatus sampleOrderBody = JStr ''paid''
   \<and> ob_email sampleOrderBody = JStr ''admin@gmail.com''"
    by (simp add: sampleOrderBody_def)
  from h1 place_spec[where s = sampleStore and email = "''reader@example.com''"
      and body = sampleOrderBody and now = 60 and nid = "''65a1b2c3d4e5f60718293c03''"]
  obtain od where od:
    "place sampleStore ''reader@example.com'' sampleOrderBody 60 ''65a1b2c3d4e5f60718293c03''
       = (Ok ''65a1b2c3d4e5f60718293c03'', sampleStore\<lparr>orders := orders sampleStore @ [od]\<rparr>)"
    "order_id od = ''65a1b2c3d4e5f60718293c03''"
    "order_status od = ''pending''" "paymentStatus od = ''unpaid''"
    "order_email od = ''reader@example.com''" "order_createdAt od = 60"
    by blast
  from od(2) h1 have "od \<notin> set (orders sampleStore)" by (metis imageI)
  with od have "od \<in> set (orders (snd (place sampleStore ''reader@example.com'' sampleOrderBody 60
                                     ''65a1b2c3d4e5f60718293c03''))) - set (orders sampleStore)"
    by simp
  moreover from od(1)
  have "place sampleStore ''reader@example.com'' sampleOrderBody 60 ''65a1b2c3d4e5f60718293c03''
            = (Ok ''65a1b2c3d4e5f60718293c03'', sampleStore\<lparr>orders := [orderA, orderB, od]\<rparr>)"
    by (simp add: sampleStore_def)
  ultimately show ?thesis using h1 h2 od by blast
qed

lemma updateOne_snd_find:
  "find P xs = Some x \<Longrightarrow> snd (updateOne P f xs) = (if f x = x then 0 else 1)"
  by (induction xs) (auto split: if_splits)

lemma updateOne_others:
  "(\<And>x. k (f x) = k x) \<Longrightarrow>
     filter (\<lambda>x. k x \<noteq> i) (fst (updateOne (\<lambda>x. k x = i) f xs)) = filter (\<lambda>x. k x \<noteq> i) xs"
  by (induction xs) auto

lemma ownOrderUpdate_forbidden:
  assumes "ObjectId p = Some i"
    and "i \<notin> order_id ` set (orders s)
         \<or> (\<exists>od. find (\<lambda>od. order_id od = i) (orders s) = Some od \<and> order_email od \<noteq> email)"
  shows "ownOrderUpdate f s email p = (Forbidden, s)"
proof -
  from assms(2) consider
      (absent) "find (\<lambda>od. order_id od = i) (orders s) = None"
    | (foreign) od where "find (\<lambda>od. order_id od = i) (orders s) = Some od"
        "order_email od \<noteq> email"
    by (auto simp: find_None_iff)
  then show ?thesis
    using assms(1) by cases (simp_all add: ownOrderUpdate_def)
qed

lemma ownOrderUpdate_not_NotFound:
  "fst (ownOrderUpdate f s email p) \<noteq> NotFound"
  by (simp add: ownOrderUpdate_def Let_def split: option.splits)

lemma ownOrderUpdate_malformed:
  "ObjectId p = None \<Longrightarrow> ownOrderUpdate f s email p = (Thrown, s)"
  by (simp add: ownOrderUpdate_def)

lemma ownOrderUpdate_owned:
  assumes "ObjectId p = Some i"
    and "find (\<lambda>od. order_id od = i) (orders s) = Some od"
    and "order_email od = email"
  shows "ownOrderUpdate f s email p
           = (Ok (f od \<noteq> od),
              s\<lparr>orders := fst (updateOne (\<lambda>od. order_id od = i) f (orders s))\<rparr>)"
  using assms by (simp add: ownOrderUpdate_def Let_def updateOne_snd_find)

lemma ownOrderUpdate_idem:
  assumes idem: "\<And>x. f (f x) = f x"
    and keep_id: "\<And>x. order_id (f x) = order_id x"
    and keep_email: "\<And>x. order_email (f x) = order_email x"
  shows "snd (ownOrderUpdate f (snd (ownOrderUpdate f s email p)) email p)
           = snd (ownOrderUpdate f s email p)"
proof (cases "ObjectId p")
  case None
  then show ?thesis by (simp add: ownOrderUpdate_malformed)
next
  case (Some i)
  show ?thesis
  proof (cases "find (\<lambda>od. order_id od = i) (orders s)")
    case None
    with Some show ?thesis by (simp add: ownOrderUpdate_def)
  next
    case (Some od)
    note found = this
    show ?thesis
    proof (cases "order_email od = email")
      case False
      with found \<open>ObjectId p = Some i\<close> show ?thesis by (simp add: ownOrderUpdate_def)
    next
      case True
      let ?os = "fst (updateOne (\<lambda>od. order_id od = i) f (orders s))"
      let ?s1 = "s\<lparr>orders := ?os\<rparr>"
      have first: "ownOrderUpdate f s email p = (Ok (f od \<noteq> od), ?s1)"
        using \<open>ObjectId p = Some i\<close> found True by (rule ownOrderUpdate_owned)
      have "order_id od = i" using found by (auto simp: find_Some_iff)
      then have "find (\<lambda>od. order_id od = i) ?os = Some (f od)"
        using found by (intro updateOne_find) (simp_all add: keep_id)
      then have again: "find (\<lambda>od. order_id od = i) (orders ?s1) = Some (f od)"
        by simp
      have mine: "order_email (f od) = email"
        using True by (simp add: keep_email)
      have second: "ownOrderUpdate f ?s1 email p
                   = (Ok (f (f od) \<noteq> f od),
                      ?s1\<lparr>orders := fst (updateOne (\<lambda>od. order_id od = i) f (orders ?s1))\<rparr>)"
        using \<open>ObjectId p = Some i\<close> again mine by (rule ownOrderUpdate_owned)
      have "updateOne (\<lambda>od. order_id od = i) f ?os = (?os, 0)"
        by (rule updateOne_idem) (simp_all add: idem keep_id)
      with first second show ?thesis by simp
    qed
  qed
qed

text \<open>
  C6. Paying twice leaves the store exactly as paying once does, and so does
  cancelling twice, for every store, principal and parameter. For an order of the
  acting user, addressed by its id, the order the store then holds under that id is
  the same order with payment status paid (after one or two calls of \<open>pay\<close>), or
  with status cancelled (after one or two calls of \<open>cancel\<close>) whatever its status
  was; users and books are not touched.
\<close>

theorem pay_cancel_idempotent:
  "snd (pay (snd (pay s email p)) email p) = snd (pay s email p)
   \<and> snd (cancel (snd (cancel s email p)) email p) = snd (cancel s email p)
   \<and> (ObjectId p = Some i \<and> find (\<lambda>od. order_id od = i) (orders s) = Some od
        \<and> order_email od = email \<longrightarrow>
        find (\<lambda>od. order_id od = i) (orders (snd (pay s email p)))
          = Some (od\<lparr>paymentStatus := ''paid''\<rparr>)
        \<and> find (\<lambda>od. order_id od = i) (orders (snd (pay (snd (pay s email p)) email p)))
          = Some (od\<lparr>paymentStatus := ''paid''\<rparr>)
        \<and> find (\<lambda>od. order_id od = i) (orders (snd (cancel s email p)))
          = Some (od\<lparr>order_status := ''cancelled''\<rparr>)
        \<and> find (\<lambda>od. order_id od = i) (orders (snd (cancel (snd (cancel s email p)) email p)))
          = Some (od\<lparr>order_status := ''cancelled''\<rparr>)
        \<and> fst (pay s email p) = Ok (paymentStatus od \<noteq> ''paid'')
        \<and> fst (cancel s email p) = Ok (order_status od \<noteq> ''cancelled'')
        \<and> users (snd (pay s email p)) = users s \<and> books (snd (pay s email p)) = books s
        \<and> users (snd (cancel s email p)) = users s \<and> books (snd (cancel s email p)) = books s)"
proof -
  have p2: "snd (pay (snd (pay s email p)) email p) = snd (pay s email p)"
    unfolding pay_def by (rule ownOrderUpdate_idem) simp_all
  have c2: "snd (cancel (snd (cancel s email p)) email p) = snd (cancel s email p)"
    unfolding cancel_def by (rule ownOrderUpdate_idem) simp_all
  have owned: "find (\<lambda>od. order_id od = i) (orders (snd (pay s email p)))
          = Some (od\<lparr>paymentStatus := ''paid''\<rparr>)
        \<and> find (\<lambda>od. order_id od = i) (orders (snd (cancel s email p)))
          = Some (od\<lparr>order_status := ''cancelled''\<rparr>)
        \<and> fst (pay s email p) = Ok (paymentStatus od \<noteq> ''paid'')
        \<and> fst (cancel s email p) = Ok (order_status od \<noteq> ''cancelled'')
        \<and> users (snd (pay s email p)) = users s \<and> books (snd (pay s email p)) = books s
        \<and> users (snd (cancel s email p)) = users s \<and> books (snd (cancel s email p)) = books s"
    if a: "ObjectId p = Some i" "find (\<lambda>od. order_id od = i) (orders s) = Some od"
      "order_email od = email"
  proof -
    have i: "order_id od = i" using a(2) by (auto simp: find_Some_iff)
    have fp: "find (\<lambda>od. order_id od = i)
                (fst (updateOne (\<lambda>od. order_id od = i) (\<lambda>od. od\<lparr>paymentStatus := ''paid''\<rparr>) (orders s)))
              = Some (od\<lparr>paymentStatus := ''paid''\<rparr>)"
      using a(2) i by (intro updateOne_find) simp_all
    have fc: "find (\<lambda>od. order_id od = i)
                (fst (updateOne (\<lambda>od. order_id od = i) (\<lambda>od. od\<lparr>order_status := ''cancelled''\<rparr>) (orders s)))
              = Some (od\<lparr>order_status := ''cancelled''\<rparr>)"
      using a(2) i by (intro updateOne_find) simp_all
    have np: "(od\<lparr>paymentStatus := ''paid''\<rparr> \<noteq> od) = (paymentStatus od \<noteq> ''paid'')"
      by (cases od) auto
    have nc: "(od\<lparr>order_status := ''cancelled''\<rparr> \<noteq> od) = (order_status od \<noteq> ''cancelled'')"
      by (cases od) auto
    show ?thesis
      using fp fc np nc
      by (simp add: pay_def cancel_def ownOrderUpdate_owned[OF a])
  qed
  have third: "ObjectId p = Some i \<and> find (\<lambda>od. order_id od = i) (orders s) = Some od
        \<and> order_email od = email \<longrightarrow>
        find (\<lambda>od. order_id od = i) (orders (snd (pay s email p)))
          = Some (od\<lparr>paymentStatus := ''paid''\<rparr>)
        \<and> find (\<lambda>od. order_id od = i) (orders (snd (pay (snd (pay s email p)) email p)))
          = Some (od\<lparr>paymentStatus := ''paid''\<rparr>)
        \<and> find (\<lambda>od. order_id od = i) (orders (snd (cancel s email p)))
          = Some (od\<lparr>order_status := ''cancelled''\<rparr>)
        \<and> find (\<lambda>od. order_id od = i) (orders (snd (cancel (snd (cancel s email p)) email p)))
          = Some (od\<lparr>order_status := ''cancelled''\<rparr>)
        \<and> fst (pay s email p) = Ok (paymentStatus od \<noteq> ''paid'')
        \<and> fst (cancel s email p) = Ok (order_status od \<noteq> ''cancelled'')
        \<and> users (snd (pay s email p)) = users s \<and> books (snd (pay s email p)) = books s
        \<and> users (snd (cancel s email p)) = users s \<and> books (snd (cancel s email p)) = books s"
  proof (rule impI)
    assume "ObjectId p = Some i \<and> find (\<lambda>od. order_id od = i) (orders s) = Some od
        \<and> order_email od = email"
    with owned p2 c2 show "find (\<lambda>od. order_id od = i) (orders (snd (pay s email p)))
          = Some (od\<lparr>paymentStatus := ''paid''\<rparr>)
        \<and> find (\<lambda>od. order_id od = i) (orders (snd (pay (snd (pay s email p)) email p)))
          = Some (od\<lparr>paymentStatus := ''paid''\<rparr>)
        \<and> find (\<lambda>od. order_id od = i) (orders (snd (cancel s email p)))
          = Some (od\<lparr>order_status := ''cancelled''\<rparr>)
        \<and> find (\<lambda>od. order_id od = i) (orders (snd (cancel (snd (cancel s email p)) email p)))
          = Some (od\<lparr>order_status := ''cancelled''\<rparr>)
        \<and> fst (pay s email p) = Ok (paymentStatus od \<noteq> ''paid'')
        \<and> fst (cancel s email p) = Ok (order_status od \<noteq> ''cancelled'')
        \<and> users (snd (pay s email p)) = users s \<and> books (snd (pay s email p)) = books s
        \<and> users (snd (cancel s email p)) = users s \<and> books (snd (cancel s email p)) = books s"
      by simp
  qed
  show ?thesis
    by (intro conjI) (rule p2, rule c2, rule third)
qed

theorem pay_cancel_idempotent_witness:
  "ObjectId ''65a1b2c3d4e5f60718293c01'' = Some ''65a1b2c3d4e5f60718293c01''
   \<and> find (\<lambda>od. order_id od = ''65a1b2c3d4e5f60718293c01'') (orders sampleStore) = Some orderA
   \<and> order_email orderA = ''reader@example.com''
   \<and> order_status orderA = ''delivered''
   \<and> find (\<lambda>od. order_id od = ''65a1b2c3d4e5f60718293c01'')
        (orders (snd (pay (snd (pay sampleStore ''reader@example.com'' ''65a1b2c3d4e5f60718293c01''))
                      ''reader@example.com'' ''65a1b2c3d4e5f60718293c01'')))
       = Some (orderA\<lparr>paymentStatus := ''paid''\<rparr>)
   \<and> find (\<lambda>od. order_id od = ''65a1b2c3d4e5f60718293c01'')
        (orders (snd (cancel (snd (cancel sampleStore ''reader@example.com'' ''65a1b2c3d4e5f60718293c01''))
                      ''reader@example.com'' ''65a1b2c3d4e5f60718293c01'')))
       = Some (orderA\<lparr>order_status := ''cancelled''\<rparr>)
   \<and> fst (pay sampleStore ''reader@example.com'' ''65a1b2c3d4e5f60718293c01'') = Ok True
   \<and> fst (cancel sampleStore ''reader@example.com'' ''65a1b2c3d4e5f60718293c01'') = Ok True"
proof -
  have h1: "ObjectId ''65a1b2c3d4e5f60718293c01'' = Some ''65a1b2c3d4e5f60718293c01''"
    by (simp add: id_defs)
  have h2: "find (\<lambda>od. order_id od = ''65a1b2c3d4e5f60718293c01'') (orders sampleStore) = Some orderA"
    by (simp add: sample_defs)
  have h3: "order_email orderA = ''reader@example.com''" "order_status orderA = ''delivered''"
    "paymentStatus orderA = ''unpaid''"
    by (simp_all add: orderA_def)
  from h1 h2 h3 pay_cancel_idempotent[where s = sampleStore and email = "''reader@example.com''"
      and p = "''65a1b2c3d4e5f60718293c01''" and i = "''65a1b2c3d4e5f60718293c01''" and od = orderA]
  show ?thesis by simp
qed

text \<open>
  C10 (as stated). The claim covers every order id that is not in the store. For the
  id below, which is not a well-formed ObjectId, the constructor throws before the
  store is asked: the handler sends neither 403 nor any other reply.
\<close>

theorem pay_cancel_malformed_id_counterexample:
  "''not-an-order-id'' \<notin> order_id ` set (orders sampleStore)
   \<and> fst (pay sampleStore ''reader@example.com'' ''not-an-order-id'') = Thrown
   \<and> fst (cancel sampleStore ''reader@example.com'' ''not-an-order-id'') = Thrown
   \<and> fst (pay sampleStore ''reader@example.com'' ''not-an-order-id'') \<noteq> Forbidden
   \<and> fst (cancel sampleStore ''reader@example.com'' ''not-an-order-id'') \<noteq> Forbidden"
  by (simp add: pay_def cancel_def ownOrderUpdate_def ObjectId_def sample_defs)

text \<open>
  C10 (amended). For every well-formed order id that no order has, and for every id
  under which the store holds an order of another email, \<open>pay\<close> and \<open>cancel\<close>
  reply Forbidden and leave the store as it was, so the two cases cannot be told
  apart; no call of either ever replies NotFound.
\<close>

theorem pay_cancel_forbidden:
  "(ObjectId p = Some i
      \<and> (i \<notin> order_id ` set (orders s)
          \<or> (\<exists>od. find (\<lambda>od. order_id od = i) (orders s) = Some od \<and> order_email od \<noteq> email))
      \<longrightarrow> pay s email p = (Forbidden, s) \<and> cancel s email p = (Forbidden, s))
   \<and> fst (pay s email p) \<noteq> NotFound \<and> fst (cancel s email p) \<noteq> NotFound"
proof (intro conjI impI)
  assume a: "ObjectId p = Some i
      \<and> (i \<notin> order_id ` set (orders s)
          \<or> (\<exists>od. find (\<lambda>od. order_id od = i) (orders s) = Some od \<and> order_email od \<noteq> email))"
  then show "pay s email p = (Forbidden, s)"
    unfolding pay_def by (intro ownOrderUpdate_forbidden[where i = i]) simp_all
  from a show "cancel s email p = (Forbidden, s)"
    unfolding cancel_def by (intro ownOrderUpdate_forbidden[where i = i]) simp_all
next
  show "fst (pay s email p) \<noteq> NotFound"
    unfolding pay_def by (rule ownOrderUpdate_not_NotFound)
  show "fst (cancel s email p) \<noteq> NotFound"
    unfolding cancel_def by (rule ownOrderUpdate_not_NotFound)
qed

theorem pay_cancel_forbidden_witness:
  "(ObjectId ''65a1b2c3d4e5f60718293cff'' = Some ''65a1b2c3d4e5f60718293cff''
      \<and> ''65a1b2c3d4e5f60718293cff'' \<notin> order_id ` set (orders sampleStore)
      \<and> pay sampleStore ''reader@example.com'' ''65a1b2c3d4e5f60718293cff'' = (Forbidden, sampleStore)
      \<and> cancel sampleStore ''reader@example.com'' ''65a1b2c3d4e5f60718293cff'' = (Forbidden, sampleStore))
   \<and> (ObjectId ''65a1b2c3d4e5f60718293c01'' = Some ''65a1b2c3d4e5f60718293c01''
      \<and> find (\<lambda>od. order_id od = ''65a1b2c3d4e5f60718293c01'') (orders sampleStore) = Some orderA
      \<and> order_email orderA \<noteq> ''librarian@gmail.com''
      \<and> pay sampleStore ''librarian@gmail.com'' ''65a1b2c3d4e5f60718293c01'' = (Forbidden, sampleStore)
      \<and> cancel sampleStore ''librarian@gmail.com'' ''65a1b2c3d4e5f60718293c01'' = (Forbidden, sampleStore))"
proof -
  have h1: "ObjectId ''65a1b2c3d4e5f60718293cff'' = Some ''65a1b2c3d4e5f60718293cff''"
    by (simp add: id_defs)
  have h2: "''65a1b2c3d4e5f60718293cff'' \<notin> order_id ` set (orders sampleStore)"
    by (simp add: sample_defs)
  have h3: "ObjectId ''65a1b2c3d4e5f60718293c01'' = Some ''65a1b2c3d4e5f60718293c01''"
    by (simp add: id_defs)
  have h4: "find (\<lambda>od. order_id od = ''65a1b2c3d4e5f60718293c01'') (orders sampleStore) = Some orderA"
    by (simp add: sample_defs)
  have h5: "order_email orderA \<noteq> ''librarian@gmail.com''"
    by (simp add: orderA_def)
  from h1 h2 pay_cancel_forbidden[where s = sampleStore and email = "''reader@example.com''"
      and p = "''65a1b2c3d4e5f60718293cff''" and i = "''65a1b2c3d4e5f60718293cff''"]
  have c1: "pay sampleStore ''reader@example.com'' ''65a1b2c3d4e5f60718293cff'' = (Forbidden, sampleStore)
      \<and> cancel sampleStore ''reader@example.com'' ''65a1b2c3d4e5f60718293cff'' = (Forbidden, sampleStore)"
    by blast
  from h3 h4 h5 pay_cancel_forbidden[where s = sampleStore and email = "''librarian@gmail.com''"
      and p = "''65a1b2c3d4e5f60718293c01''" and i = "''65a1b2c3d4e5f60718293c01''"]
  have c2: "pay sampleStore ''librarian@gmail.com'' ''65a1b2c3d4e5f60718293c01'' = (Forbidden, sampleStore)
      \<and> cancel sampleStore ''librarian@gmail.com'' ''65a1b2c3d4e5f60718293c01'' = (Forbidden, sampleStore)"
    by blast
  from h1 h2 h3 h4 h5 c1 c2 show ?thesis by blast
qed

section \<open>Book catalog: public listings\<close>

lemma sortDesc_sorted:
  "sorted_wrt (\<lambda>a b. book_createdAt b \<le> book_createdAt a) (sortDesc bs)"
proof -
  have "sorted (map book_createdAt (sort_key book_createdAt bs))"
    by (rule sorted_sort_key)
  then have "sorted_wrt (\<lambda>a b. book_createdAt a \<le> book_createdAt b) (sort_key book_createdAt bs)"
    by (simp add: sorted_map)
  then show ?thesis
    by (simp add: sortDesc_def sorted_wrt_rev)
qed

lemma sortDesc_set: "set (sortDesc bs) = set bs"
  by (simp add: sortDesc_def)

lemma sortDesc_length: "length (sortDesc bs) = length bs"
  by (simp add: sortDesc_def)

lemma take_sorted_wrt_rest:
  assumes "sorted_wrt R xs" and "a \<in> set (take n xs)" and "b \<in> set (drop n xs)"
  shows "R a b"
proof -
  from assms(1) have "sorted_wrt R (take n xs @ drop n xs)" by simp
  with assms(2,3) show ?thesis
    unfolding sorted_wrt_append by blast
qed

lemma fieldIs_iff:
  "fieldIs v s \<longleftrightarrow> v = JStr s \<or> (\<exists>xs. v = JArr xs \<and> JStr s \<in> set xs)"
  by (cases v) auto

text \<open>
  C7 (as stated). The claim says that every book listPublished returns has status
  "published". A book's status is stored unvalidated, and the store's equality
  filter also matches an array that has the string among its members: after the
  sample librarian has posted a book with status ["published", "featured"], both
  listings return it, and its status is not "published".
\<close>

theorem listPublished_array_status_counterexample:
  "map book_status (listPublished taggedStore)
     = [JStr ''published'', JStr ''published'', JArr [JStr ''published'', JStr ''featured'']]
   \<and> map book_status (listLatestPublished taggedStore)
     = [JArr [JStr ''published'', JStr ''featured''], JStr ''published'', JStr ''published'']
   \<and> JArr [JStr ''published'', JStr ''featured''] \<noteq> JStr ''published''"
  by (simp add: listLatestPublished_def sortDesc_def listPublished_def taggedStore_def
        taggedBody_def publishCandidate_def insertOne_def Let_def sample_defs)

text \<open>
  C7 (amended). For every store, listPublished returns exactly the books whose
  status is the string "published" or an array with that string among its members
  (what the store's filter matches), never a book of any other status.
  listLatestPublished returns at most 6 books (6, or all listed books when there
  are fewer), each of them with such a status and in the store, in non-increasing
  order of creation time, and no listed book left out is newer than one returned.
\<close>

theorem listPublished_spec:
  "set (listPublished s)
     = {b \<in> set (books s). book_status b = JStr ''published''
          \<or> (\<exists>xs. book_status b = JArr xs \<and> JStr ''published'' \<in> set xs)}
   \<and> (\<forall>b \<in> set (listPublished s). book_status b = JStr ''published''
          \<or> (\<exists>xs. book_status b = JArr xs \<and> JStr ''published'' \<in> set xs))
   \<and> length (listLatestPublished s) \<le> 6
   \<and> length (listLatestPublished s) = min 6 (length (listPublished s))
   \<and> (\<forall>b \<in> set (listLatestPublished s).
         (book_status b = JStr ''published''
            \<or> (\<exists>xs. book_status b = JArr xs \<and> JStr ''published'' \<in> set xs))
         \<and> b \<in> set (books s))
   \<and> sorted_wrt (\<lambda>a b. book_createdAt b \<le> book_createdAt a) (listLatestPublished s)
   \<and> (\<forall>a \<in> set (listLatestPublished s).
        \<forall>b \<in> set (drop 6 (sortDesc (listPublished s))). book_createdAt b \<le> book_createdAt a)
   \<and> set (listLatestPublished s) \<union> set (drop 6 (sortDesc (listPublished s)))
        = set (listPublished s)"
proof (intro conjI)
  show "set (listPublished s)
     = {b \<in> set (books s). book_status b = JStr ''published''
          \<or> (\<exists>xs. book_status b = JArr xs \<and> JStr ''published'' \<in> set xs)}"
    by (auto simp: listPublished_def fieldIs_iff)
  show "\<forall>b \<in> set (listPublished s). book_status b = JStr ''published''
          \<or> (\<exists>xs. book_status b = JArr xs \<and> JStr ''published'' \<in> set xs)"
    by (simp add: listPublished_def fieldIs_iff)
  show "length (listLatestPublished s) \<le> 6"
    by (simp add: listLatestPublished_def)
  show "length (listLatestPublished s) = min 6 (length (listPublished s))"
    by (simp add: listLatestPublished_def sortDesc_length min.commute)
  show "\<forall>b \<in> set (listLatestPublished s).
         (book_status b = JStr ''published''
            \<or> (\<exists>xs. book_status b = JArr xs \<and> JStr ''published'' \<in> set xs))
         \<and> b \<in> set (books s)"
  proof
    fix b assume "b \<in> set (listLatestPublished s)"
    then have "b \<in> set (sortDesc (listPublished s))"
      unfolding listLatestPublished_def by (rule in_set_takeD)
    then show "(book_status b = JStr ''published''
            \<or> (\<exists>xs. book_status b = JArr xs \<and> JStr ''published'' \<in> set xs))
         \<and> b \<in> set (books s)"
      by (simp add: sortDesc_set listPublished_def fieldIs_iff)
  qed
  show "sorted_wrt (\<lambda>a b. book_createdAt b \<le> book_createdAt a) (listLatestPublished s)"
    unfolding listLatestPublished_def by (intro sorted_wrt_take sortDesc_sorted)
  show "\<forall>a \<in> set (listLatestPublished s).
        \<forall>b \<in> set (drop 6 (sortDesc (listPublished s))). book_createdAt b \<le> book_createdAt a"
    unfolding listLatestPublished_def
    using take_sorted_wrt_rest[OF sortDesc_sorted] by blast
  have "set (take 6 (sortDesc (listPublished s))) \<union> set (drop 6 (sortDesc (listPublished s)))
          = set (sortDesc (listPublished s))"
    by (metis append_take_drop_id set_append)
  then have "set (take 6 (sortDesc (listPublished s))) \<union> set (drop 6 (sortDesc (listPublished s)))
          = set (listPublished s)"
    by (simp only: sortDesc_set)
  then show "set (listLatestPublished s) \<union> set (drop 6 (sortDesc (listPublished s)))
        = set (listPublished s)"
    by (simp add: listLatestPublished_def)
qed

theorem listPublished_spec_witness:
  "listPublished sampleStore = [bookA, bookC]
   \<and> listLatestPublished sampleStore = [bookC, bookA]
   \<and> length (listPublished taggedStore) = 3
   \<and> length (listLatestPublished taggedStore) = min 6 (length (listPublished taggedStore))
   \<and> length (listPublished shelfStore) = 7
   \<and> map book_createdAt (listLatestPublished shelfStore) = [19, 18, 17, 15, 14, 13]
   \<and> map book_createdAt (drop 6 (sortDesc (listPublished shelfStore))) = [11]
   \<and> map book_status (listLatestPublished shelfStore) = replicate 6 (JStr ''published'')
   \<and> length (listLatestPublished shelfStore) \<le> 6
   \<and> length (listLatestPublished shelfStore) = min 6 (length (listPublished shelfStore))
   \<and> sorted_wrt (\<lambda>a b. book_createdAt b \<le> book_createdAt a) (listLatestPublished shelfStore)"
proof -
  have e1: "listPublished sampleStore = [bookA, bookC]"
    by (simp add: listPublished_def sample_defs)
  have e2: "listLatestPublished sampleStore = [bookC, bookA]"
    by (simp add: listLatestPublished_def sortDesc_def listPublished_def sample_defs)
  have e3: "length (listPublished shelfStore) = 7"
    by (simp add: listPublished_def shelfStore_def shelf_def sample_defs)
  have e4: "map book_createdAt (listLatestPublished shelfStore) = [19, 18, 17, 15, 14, 13]"
    by (simp add: listLatestPublished_def sortDesc_def listPublished_def shelfStore_def
          shelf_def sample_defs)
  have e5: "map book_createdAt (drop 6 (sortDesc (listPublished shelfStore))) = [11]"
    by (simp add: sortDesc_def listPublished_def shelfStore_def shelf_def sample_defs)
  have e6: "map book_status (listLatestPublished shelfStore) = replicate 6 (JStr ''published'')"
    by (simp add: listLatestPublished_def sortDesc_def listPublished_def shelfStore_def
          shelf_def sample_defs numeral_eq_Suc)
  have e7: "length (listPublished taggedStore) = 3"
    by (simp add: listPublished_def taggedStore_def taggedBody_def publishCandidate_def
          insertOne_def Let_def sample_defs)
  from listPublished_spec[of shelfStore] listPublished_spec[of taggedStore]
    e1 e2 e3 e4 e5 e6 e7 show ?thesis
    by blast
qed

section \<open>Invoices\<close>

lemma promiseAll_all:
  "\<forall>r \<in> set rs. r \<noteq> None \<Longrightarrow> \<exists>ys. promiseAll rs = Some ys \<and> rs = map Some ys"
proof (induction rs)
  case Nil
  then show ?case by simp
next
  case (Cons r rs)
  then obtain ys where "promiseAll rs = Some ys" "rs = map Some ys" by auto
  moreover from Cons.prems obtain y where "r = Some y" by auto
  ultimately show ?case by simp
qed

lemma promiseAll_rejects:
  "None \<in> set rs \<Longrightarrow> promiseAll rs = None"
  by (induction rs rule: promiseAll.induct) auto

lemma invoiceOf_Some:
  "ObjectIdOf (bookId od) \<noteq> Throws \<Longrightarrow>
     \<exists>inv. invoiceOf bs od = Some inv \<and> inv_id inv = order_id od
        \<and> paymentId inv = toUpperCase (sliceLast 8 (order_id od))
        \<and> amount inv = (if truthy (order_price od) then order_price od else JNum 0)
        \<and> date inv = order_createdAt od"
  by (cases "ObjectIdOf (bookId od)") (simp_all add: invoiceOf_def lookupBook_def jor_def)

lemma invoiceOf_None:
  "ObjectIdOf (bookId od) = Throws \<Longrightarrow> invoiceOf bs od = None"
  by (simp add: invoiceOf_def lookupBook_def)

lemma invoicesFor_returns:
  assumes "\<forall>od \<in> set (paidOrders s email). ObjectIdOf (bookId od) \<noteq> Throws"
  shows "\<exists>invs. invoicesFor s email = Ok invs
           \<and> map inv_id invs = map order_id (paidOrders s email)
           \<and> map paymentId invs
               = map (\<lambda>od. toUpperCase (sliceLast 8 (order_id od))) (paidOrders s email)
           \<and> map amount invs
               = map (\<lambda>od. if truthy (order_price od) then order_price od else JNum 0)
                   (paidOrders s email)"
proof -
  let ?rs = "map (invoiceOf (books s)) (paidOrders s email)"
  have "\<forall>r \<in> set ?rs. r \<noteq> None"
    using assms invoiceOf_Some[of _ "books s"] by fastforce
  then obtain invs where invs: "promiseAll ?rs = Some invs" "?rs = map Some invs"
    using promiseAll_all by blast
  have len: "length invs = length (paidOrders s email)"
    using invs(2) by (metis length_map)
  have each: "inv_id (invs ! k) = order_id (paidOrders s email ! k)
           \<and> paymentId (invs ! k) = toUpperCase (sliceLast 8 (order_id (paidOrders s email ! k)))
           \<and> amount (invs ! k) = (if truthy (order_price (paidOrders s email ! k))
                                   then order_price (paidOrders s email ! k) else JNum 0)"
    if k: "k < length invs" for k
  proof -
    have "paidOrders s email ! k \<in> set (paidOrders s email)"
      using k len by simp
    with assms have ok: "ObjectIdOf (bookId (paidOrders s email ! k)) \<noteq> Throws" by blast
    have "?rs ! k = Some (invs ! k)"
      using k by (simp add: invs(2))
    then have "invoiceOf (books s) (paidOrders s email ! k) = Some (invs ! k)"
      using k len by simp
    with invoiceOf_Some[OF ok, of "books s"] show ?thesis by auto
  qed
  have "map inv_id invs = map order_id (paidOrders s email)"
    using len each by (intro nth_equalityI) simp_all
  moreover have "map paymentId invs
               = map (\<lambda>od. toUpperCase (sliceLast 8 (order_id od))) (paidOrders s email)"
    using len each by (intro nth_equalityI) simp_all
  moreover have "map amount invs
               = map (\<lambda>od. if truthy (order_price od) then order_price od else JNum 0)
                   (paidOrders s email)"
    using len each by (intro nth_equalityI) simp_all
  ultimately show ?thesis
    using invs(1) by (simp add: invoicesFor_def)
qed

lemma updateOne_append_later:
  "\<forall>x \<in> set xs. \<not> P x \<Longrightarrow> updateOne P f (xs @ ys) = (xs @ fst (updateOne P f ys), snd (updateOne P f ys))"
  by (induction xs) auto

lemma hex_upper_all:
  "\<forall>c \<in> set ''0123456789abcdefABCDEF''. toUpperChar c \<in> set ''0123456789ABCDEF''"
  by (simp add: toUpperChar_def upperTable_def)

lemma hex_upper: "isHex c \<Longrightarrow> toUpperChar c \<in> set ''0123456789ABCDEF''"
  unfolding isHex_def using hex_upper_all by (rule bspec)

lemma paymentId_shape:
  assumes "ObjectId nid = Some i"
  shows "length (toUpperCase (sliceLast 8 nid)) = 8
         \<and> set (toUpperCase (sliceLast 8 nid)) \<subseteq> set ''0123456789ABCDEF''"
proof -
  from assms have len: "length nid = 24" and hex: "list_all isHex nid"
    by (auto simp: ObjectId_def split: if_splits)
  have "set (sliceLast 8 nid) \<subseteq> set nid"
    by (simp add: sliceLast_def set_drop_subset)
  with hex have "\<forall>c \<in> set (sliceLast 8 nid). isHex c"
    by (auto simp: list_all_iff)
  then have "set (toUpperCase (sliceLast 8 nid)) \<subseteq> set ''0123456789ABCDEF''"
    unfolding toUpperCase_def using hex_upper by auto
  moreover have "length (toUpperCase (sliceLast 8 nid)) = 8"
    using len by (simp add: toUpperCase_def sliceLast_def)
  ultimately show ?thesis by blast
qed

lemma place_pay_invoice:
  assumes fresh: "nid \<notin> order_id ` set (orders s)"
    and canon: "ObjectId nid = Some nid"
    and prior: "paidOrders s email = []"
    and book: "ObjectIdOf (ob_bookId body) \<noteq> Throws"
  shows "\<exists>inv. invoicesFor (snd (pay (snd (place s email body now nid)) email nid)) email = Ok [inv]
           \<and> amount inv = (if truthy (ob_price body) then ob_price body else JNum 0)
           \<and> paymentId inv = toUpperCase (sliceLast 8 nid)"
proof -
  let ?od = "newOrder email body now nid"
  let ?s1 = "s\<lparr>orders := orders s @ [?od]\<rparr>"
  let ?P = "\<lambda>od. order_id od = nid"
  let ?f = "\<lambda>od. od\<lparr>paymentStatus := ''paid''\<rparr>"
  have none: "\<forall>x \<in> set (orders s). \<not> ?P x"
    using fresh by (metis imageI)
  have placed: "snd (place s email body now nid) = ?s1"
    using fresh by (simp add: place_def insertOne_def newOrder_def)
  have "find ?P (orders s) = None"
    using none by (simp add: find_None_iff)
  then have found: "find ?P (orders ?s1) = Some ?od"
    by (simp add: find_append_case newOrder_def)
  have mine: "order_email ?od = email"
    by (simp add: newOrder_def)
  have upd: "fst (updateOne ?P ?f (orders ?s1)) = orders s @ [?f ?od]"
    using none by (simp add: updateOne_append_later newOrder_def)
  have paid: "snd (pay ?s1 email nid) = ?s1\<lparr>orders := orders s @ [?f ?od]\<rparr>"
    unfolding pay_def using ownOrderUpdate_owned[OF canon found mine, of ?f] upd by simp
  let ?s2 = "?s1\<lparr>orders := orders s @ [?f ?od]\<rparr>"
  have po: "paidOrders ?s2 email = [?f ?od]"
    using prior by (simp add: paidOrders_def newOrder_def)
  have ok: "ObjectIdOf (bookId (?f ?od)) \<noteq> Throws"
    using book by (simp add: newOrder_def)
  from invoiceOf_Some[OF ok, of "books ?s2"]
  obtain inv where inv: "invoiceOf (books ?s2) (?f ?od) = Some inv"
    "paymentId inv = toUpperCase (sliceLast 8 (order_id (?f ?od)))"
    "amount inv = (if truthy (order_price (?f ?od)) then order_price (?f ?od) else JNum 0)"
    by blast
  have "invoicesFor ?s2 email = Ok [inv]"
    using po inv(1) by (simp add: invoicesFor_def)
  moreover have "paymentId inv = toUpperCase (sliceLast 8 nid)"
    using inv(2) by (simp add: newOrder_def)
  moreover have "amount inv = (if truthy (ob_price body) then ob_price body else JNum 0)"
    using inv(3) by (simp add: newOrder_def)
  ultimately have "invoicesFor ?s2 email = Ok [inv]
           \<and> amount inv = (if truthy (ob_price body) then ob_price body else JNum 0)
           \<and> paymentId inv = toUpperCase (sliceLast 8 nid)"
    by blast
  moreover have "snd (pay (snd (place s email body now nid)) email nid) = ?s2"
    by (simp only: placed paid)
  ultimately show ?thesis
    by (intro exI[of _ inv]) (simp only:)
qed

text \<open>
  C8 (as stated). The claim says that each invoice's amount equals the order's
  recorded price. The handler computes \<open>o.price || 0\<close>: for the paid order below,
  placed without a price, the invoice carries the number 0, which is not what the
  order records.
\<close>

theorem invoice_amount_counterexample:
  "paidOrders (snd (pay sampleStore ''reader@example.com'' ''65a1b2c3d4e5f60718293c02''))
       ''reader@example.com''
     = [orderB\<lparr>paymentStatus := ''paid''\<rparr>]
   \<and> invoicesFor (snd (pay sampleStore ''reader@example.com'' ''65a1b2c3d4e5f60718293c02''))
       ''reader@example.com''
     = Ok [\<lparr>inv_id = ''65a1b2c3d4e5f60718293c02'', paymentId = ''18293C02'',
             inv_bookTitle = JStr ''Unknown'', amount = JNum 0, date = 50\<rparr>]
   \<and> order_price (orderB\<lparr>paymentStatus := ''paid''\<rparr>) = JUndef
   \<and> JNum 0 \<noteq> order_price (orderB\<lparr>paymentStatus := ''paid''\<rparr>)"
  by (simp add: pay_def ownOrderUpdate_def id_defs sample_defs paidOrders_def invoicesFor_def
        invoiceOf_def lookupBook_def jor_def toUpperCase_def sliceLast_def toUpperChar_def
        upperTable_def)

text \<open>
  C8 (amended). For every user email whose paid orders all carry a \<open>bookId\<close> that
  the ObjectId constructor accepts, invoicesFor returns one invoice per order of
  that email with payment status paid, in order, and none for any other order;
  each invoice's paymentId is the trailing 8 characters of the order id in upper
  case, and its amount is the order's recorded price when that is truthy and the
  number 0 otherwise. In particular, after placing an order with price 20 under a
  new id and paying it, a user without earlier paid orders gets exactly one invoice,
  with amount 20 and a paymentId of 8 upper-case hexadecimal characters taken from
  the end of the order id.
\<close>

theorem invoicesFor_spec:
  "((\<forall>od \<in> set (paidOrders s email). ObjectIdOf (bookId od) \<noteq> Throws) \<longrightarrow>
      (\<exists>invs. invoicesFor s email = Ok invs
         \<and> paidOrders s email
             = filter (\<lambda>od. order_email od = email \<and> paymentStatus od = ''paid'') (orders s)
         \<and> map inv_id invs = map order_id (paidOrders s email)
         \<and> map paymentId invs
             = map (\<lambda>od. toUpperCase (sliceLast 8 (order_id od))) (paidOrders s email)
         \<and> map amount invs
             = map (\<lambda>od. if truthy (order_price od) then order_price od else JNum 0)
                 (paidOrders s email)))
   \<and> (nid \<notin> order_id ` set (orders s) \<and> ObjectId nid = Some nid \<and> paidOrders s email = []
        \<and> ObjectIdOf (ob_bookId body) \<noteq> Throws \<and> ob_price body = JNum 20 \<longrightarrow>
      (\<exists>inv. invoicesFor (snd (pay (snd (place s email body now nid)) email nid)) email = Ok [inv]
         \<and> amount inv = JNum 20
         \<and> paymentId inv = toUpperCase (sliceLast 8 nid)
         \<and> length (paymentId inv) = 8
         \<and> set (paymentId inv) \<subseteq> set ''0123456789ABCDEF''))"
proof (rule conjI; rule impI)
  assume "\<forall>od \<in> set (paidOrders s email). ObjectIdOf (bookId od) \<noteq> Throws"
  from invoicesFor_returns[OF this]
  show "\<exists>invs. invoicesFor s email = Ok invs
         \<and> paidOrders s email
             = filter (\<lambda>od. order_email od = email \<and> paymentStatus od = ''paid'') (orders s)
         \<and> map inv_id invs = map order_id (paidOrders s email)
         \<and> map paymentId invs
             = map (\<lambda>od. toUpperCase (sliceLast 8 (order_id od))) (paidOrders s email)
         \<and> map amount invs
             = map (\<lambda>od. if truthy (order_price od) then order_price od else JNum 0)
                 (paidOrders s email)"
    by (auto simp: paidOrders_def)
next
  assume a: "nid \<notin> order_id ` set (orders s) \<and> ObjectId nid = Some nid \<and> paidOrders s email = []
        \<and> ObjectIdOf (ob_bookId body) \<noteq> Throws \<and> ob_price body = JNum 20"
  then obtain inv where inv:
    "invoicesFor (snd (pay (snd (place s email body now nid)) email nid)) email = Ok [inv]"
    "amount inv = (if truthy (ob_price body) then ob_price body else JNum 0)"
    "paymentId inv = toUpperCase (sliceLast 8 nid)"
    using place_pay_invoice[of nid s email body now] by blast
  from a have shape: "length (toUpperCase (sliceLast 8 nid)) = 8
         \<and> set (toUpperCase (sliceLast 8 nid)) \<subseteq> set ''0123456789ABCDEF''"
    using paymentId_shape[of nid nid] by blast
  from a inv(2) have "amount inv = JNum 20" by simp
  with inv(1,3) shape
  show "\<exists>inv. invoicesFor (snd (pay (snd (place s email body now nid)) email nid)) email = Ok [inv]
         \<and> amount inv = JNum 20
         \<and> paymentId inv = toUpperCase (sliceLast 8 nid)
         \<and> length (paymentId inv) = 8
         \<and> set (paymentId inv) \<subseteq> set ''0123456789ABCDEF''"
    by (intro exI[of _ inv]) simp
qed

theorem invoicesFor_spec_witness:
  "paidOrders (snd (pay sampleStore ''reader@example.com'' ''65a1b2c3d4e5f60718293c01''))
       ''reader@example.com''
     = [orderA\<lparr>paymentStatus := ''paid''\<rparr>]
   \<and> ObjectIdOf (bookId (orderA\<lparr>paymentStatus := ''paid''\<rparr>))
       = Parsed ''65a1b2c3d4e5f60718293b01''
   \<and> invoicesFor (snd (pay sampleStore ''reader@example.com'' ''65a1b2c3d4e5f60718293c01''))
        ''reader@example.com''
       = Ok [\<lparr>inv_id = ''65a1b2c3d4e5f60718293c01'', paymentId = ''18293C01'',
               inv_bookTitle = JStr ''Dune'', amount = JNum 20, date = 40\<rparr>]
   \<and> ''65a1b2c3d4e5f60718293c03'' \<notin> order_id ` set (orders sampleStore)
   \<and> ObjectId ''65a1b2c3d4e5f60718293c03'' = Some ''65a1b2c3d4e5f60718293c03''
   \<and> paidOrders sampleStore ''reader@example.com'' = []
   \<and> ObjectIdOf (ob_bookId sampleOrderBody) \<noteq> Throws
   \<and> ob_price sampleOrderBody = JNum 20
   \<and> (\<exists>inv. invoicesFor
               (snd (pay (snd (place sampleStore ''reader@example.com'' sampleOrderBody 60
                                 ''65a1b2c3d4e5f60718293c03''))
                      ''reader@example.com'' ''65a1b2c3d4e5f60718293c03''))
               ''reader@example.com'' = Ok [inv]
           \<and> amount inv = JNum 20 \<and> paymentId inv = ''18293C03'')"
proof -
  let ?s = "snd (pay sampleStore ''reader@example.com'' ''65a1b2c3d4e5f60718293c01'')"
  have s: "?s = sampleStore\<lparr>orders := [orderA\<lparr>paymentStatus := ''paid''\<rparr>, orderB]\<rparr>"
    by (simp add: pay_def ownOrderUpdate_def id_defs sample_defs)
  have po: "paidOrders ?s ''reader@example.com'' = [orderA\<lparr>paymentStatus := ''paid''\<rparr>]"
    unfolding s by (simp add: paidOrders_def sample_defs)
  have h1: "\<forall>od \<in> set (paidOrders ?s ''reader@example.com''). ObjectIdOf (bookId od) \<noteq> Throws"
    unfolding po by (simp add: orderA_def id_defs)
  have c1: "invoicesFor ?s ''reader@example.com''
       = Ok [\<lparr>inv_id = ''65a1b2c3d4e5f60718293c01'', paymentId = ''18293C01'',
               inv_bookTitle = JStr ''Dune'', amount = JNum 20, date = 40\<rparr>]"
  proof -
    from h1 invoicesFor_spec[where s = ?s and email = "''reader@example.com''"]
    obtain invs where invs: "invoicesFor ?s ''reader@example.com'' = Ok invs"
      by blast
    moreover have "invoicesFor ?s ''reader@example.com''
       = Ok [\<lparr>inv_id = ''65a1b2c3d4e5f60718293c01'', paymentId = ''18293C01'',
               inv_bookTitle = JStr ''Dune'', amount = JNum 20, date = 40\<rparr>]"
      unfolding s
      by (simp add: invoicesFor_def paidOrders_def sample_defs invoiceOf_def lookupBook_def
            id_defs jor_def toUpperCase_def sliceLast_def toUpperChar_def upperTable_def)
    ultimately show ?thesis by simp
  qed
  have h2: "''65a1b2c3d4e5f60718293c03'' \<notin> order_id ` set (orders sampleStore)"
    by (simp add: sample_defs)
  have h3: "ObjectId ''65a1b2c3d4e5f60718293c03'' = Some ''65a1b2c3d4e5f60718293c03''"
    by (simp add: id_defs)
  have h4: "paidOrders sampleStore ''reader@example.com'' = []"
    by (simp add: paidOrders_def sample_defs)
  have h5: "ObjectIdOf (ob_bookId sampleOrderBody) \<noteq> Throws"
    by (simp add: sampleOrderBody_def id_defs)
  have h6: "ob_price sampleOrderBody = JNum 20"
    by (simp add: sampleOrderBody_def)
  have up: "toUpperCase (sliceLast 8 ''65a1b2c3d4e5f60718293c03'') = ''18293C03''"
    by (simp add: toUpperCase_def sliceLast_def toUpperChar_def upperTable_def)
  from h2 h3 h4 h5 h6
    invoicesFor_spec[where s = sampleStore and email = "''reader@example.com''"
      and nid = "''65a1b2c3d4e5f60718293c03''" and body = sampleOrderBody and now = 60]
  have c2: "\<exists>inv. invoicesFor
               (snd (pay (snd (place sampleStore ''reader@example.com'' sampleOrderBody 60
                                 ''65a1b2c3d4e5f60718293c03''))
                      ''reader@example.com'' ''65a1b2c3d4e5f60718293c03''))
               ''reader@example.com'' = Ok [inv]
           \<and> amount inv = JNum 20 \<and> paymentId inv = ''18293C03''"
    unfolding up by blast
  have h0: "ObjectIdOf (bookId (orderA\<lparr>paymentStatus := ''paid''\<rparr>))
       = Parsed ''65a1b2c3d4e5f60718293b01''"
    by (simp add: orderA_def id_defs)
  from po h0 c1 h2 h3 h4 h5 h6 c2 show ?thesis by blast
qed

section \<open>Roles in reachable stores\<close>

lemma updateOne_list_all:
  "list_all Q xs \<Longrightarrow> (\<And>x. Q x \<Longrightarrow> Q (f x)) \<Longrightarrow> list_all Q (fst (updateOne P f xs))"
  by (induction xs) auto

lemma assignRole_valid: "JStr (assignRole cfg email) \<in> validRoles"
  by (simp add: assignRole_def validRoles_def)

lemma serialize_valid: "r \<in> validRoles \<Longrightarrow> serialize r = r"
  by (auto simp: validRoles_def)

lemma users_publishCandidate: "users (snd (publishCandidate s e b t i)) = users s"
  by (simp add: publishCandidate_def Let_def split: option.split)

lemma users_updateOwned: "users (snd (updateOwned s e p pt)) = users s"
  by (simp add: updateOwned_def Let_def split: option.split)

lemma users_setStatus: "users (snd (setStatus s e p st)) = users s"
  by (simp add: setStatus_def Let_def split: option.split)

lemma users_deleteCascade: "users (snd (deleteCascade s e p)) = users s"
  by (simp add: deleteCascade_def Let_def split: option.split)

lemma users_place: "users (snd (place s e b t i)) = users s"
  by (simp add: place_def split: option.split)

lemma users_ownOrderUpdate: "users (snd (ownOrderUpdate f s e p)) = users s"
  by (simp add: ownOrderUpdate_def Let_def split: option.split)

lemma users_updateStatus: "users (snd (updateStatus s e p st)) = users s"
  by (simp add: updateStatus_def Let_def split: option.split jv.split)

lemma rolesOk_loginOrCreate:
  "rolesOk s \<Longrightarrow> rolesOk (snd (loginOrCreate cfg s e u n p t i))"
  by (simp add: loginOrCreate_def insertOne_def rolesOk_def Let_def assignRole_valid
        split: option.split)

lemma rolesOk_updateRole:
  assumes "rolesOk s" and "r \<in> validRoles"
  shows "rolesOk (snd (updateRole s e p r))"
proof -
  have "list_all (\<lambda>u. role u \<in> validRoles)
          (fst (updateOne (\<lambda>u. user_id u = i) (\<lambda>u. u\<lparr>role := serialize r\<rparr>) (users s)))" for i
    using assms by (intro updateOne_list_all) (simp_all add: rolesOk_def serialize_valid)
  with assms(1) show ?thesis
    by (simp add: updateRole_def rolesOk_def Let_def split: option.split)
qed

lemma rolesOk_exec:
  "rolesOk s \<Longrightarrow> roleRequestOk rq \<Longrightarrow> rolesOk (exec cfg s rq)"
proof (cases rq)
  case (Login e u n p t i)
  assume "rolesOk s"
  with Login show ?thesis by (simp add: rolesOk_loginOrCreate)
next
  case (PatchRole e p r)
  assume "rolesOk s" "roleRequestOk rq"
  with PatchRole show ?thesis by (simp add: rolesOk_updateRole)
qed (simp_all add: rolesOk_def users_publishCandidate users_updateOwned users_setStatus
       users_deleteCascade users_place users_ownOrderUpdate users_updateStatus
       pay_def cancel_def)

lemma rolesOk_run:
  "rolesOk s \<Longrightarrow> list_all roleRequestOk rs \<Longrightarrow> rolesOk (run cfg s rs)"
  unfolding run_def
  by (induction rs arbitrary: s) (simp_all add: rolesOk_exec)

lemma updateRole_stores:
  assumes "hasRole s email ''admin''" and "ObjectId p = Some i"
    and "find (\<lambda>u. user_id u = i) (users s) = Some u"
  shows "find (\<lambda>u. user_id u = i) (users (snd (updateRole s email p r)))
           = Some (u\<lparr>role := serialize r\<rparr>)"
proof -
  have "user_id u = i" using assms(3) by (auto simp: find_Some_iff)
  then have "find (\<lambda>u. user_id u = i)
               (fst (updateOne (\<lambda>u. user_id u = i) (\<lambda>u. u\<lparr>role := serialize r\<rparr>) (users s)))
             = Some (u\<lparr>role := serialize r\<rparr>)"
    using assms(3) by (intro updateOne_find) simp_all
  with assms(1,2) show ?thesis
    by (simp add: updateRole_def Let_def)
qed

lemma run_snoc: "run cfg s (rs @ [rq]) = exec cfg (run cfg s rs) rq"
  by (simp add: run_def)

lemma run_bootstrap:
  "run literalConfig emptyStore bootstrap
     = \<lparr>users = [adminUser, readerUser], books = [], orders = []\<rparr>"
  by (simp add: run_def bootstrap_def emptyStore_def literalConfig_def loginOrCreate_def
        insertOne_def assignRole_def jor_def Let_def adminUser_def readerUser_def)

lemma patch_reader_role:
  "exec literalConfig \<lparr>users = [adminUser, readerUser], books = [], orders = []\<rparr>
     (PatchRole ''admin@gmail.com'' ''65a1b2c3d4e5f60718293a03'' r)
   = \<lparr>users = [adminUser, readerUser\<lparr>role := serialize r\<rparr>], books = [], orders = []\<rparr>"
  by (simp add: updateRole_def hasRole_def id_defs Let_def adminUser_def readerUser_def)

text \<open>
  C9 (as stated). The claim says that the admin role-update only ever stores one of
  the three role names. The handler stores \<open>req.body.role\<close> as it arrives: after two
  first logins and one role update by the admin, the reader's role is "superuser".
\<close>

theorem role_update_unvalidated_counterexample:
  "map role (users (run literalConfig emptyStore
      (bootstrap @ [PatchRole ''admin@gmail.com'' ''65a1b2c3d4e5f60718293a03'' (JStr ''superuser'')])))
     = [JStr ''admin'', JStr ''superuser'']
   \<and> JStr ''superuser'' \<notin> validRoles
   \<and> \<not> rolesOk (run literalConfig emptyStore
      (bootstrap @ [PatchRole ''admin@gmail.com'' ''65a1b2c3d4e5f60718293a03'' (JStr ''superuser'')]))"
  by (simp only: run_snoc run_bootstrap patch_reader_role)
     (simp add: rolesOk_def validRoles_def adminUser_def readerUser_def)

text \<open>
  C9 (amended). Provisioning on first login only ever assigns one of user,
  librarian, admin. The admin role-update stores the value the request carries
  (null when it carries none), without checking it. Hence every store reached from
  a store whose roles are all in the set (the empty store is one) by requests whose
  role updates carry one of the three names has every user's role in the set.
\<close>

theorem roles_invariant:
  "JStr (assignRole cfg email) \<in> validRoles
   \<and> rolesOk emptyStore
   \<and> (rolesOk s \<and> list_all roleRequestOk rs \<longrightarrow> rolesOk (run cfg s rs))
   \<and> (hasRole s email ''admin'' \<and> ObjectId p = Some i
        \<and> find (\<lambda>u. user_id u = i) (users s) = Some u \<longrightarrow>
      find (\<lambda>u. user_id u = i) (users (snd (updateRole s email p r)))
        = Some (u\<lparr>role := serialize r\<rparr>))"
proof (intro conjI impI)
  show "JStr (assignRole cfg email) \<in> validRoles" by (rule assignRole_valid)
  show "rolesOk emptyStore" by (simp add: rolesOk_def emptyStore_def)
next
  assume "rolesOk s \<and> list_all roleRequestOk rs"
  then show "rolesOk (run cfg s rs)" by (simp add: rolesOk_run)
next
  assume "hasRole s email ''admin'' \<and> ObjectId p = Some i
        \<and> find (\<lambda>u. user_id u = i) (users s) = Some u"
  then show "find (\<lambda>u. user_id u = i) (users (snd (updateRole s email p r)))
        = Some (u\<lparr>role := serialize r\<rparr>)"
    by (simp add: updateRole_stores)
qed

theorem roles_invariant_witness:
  "rolesOk emptyStore
   \<and> list_all roleRequestOk
       (bootstrap @ [PatchRole ''admin@gmail.com'' ''65a1b2c3d4e5f60718293a03'' (JStr ''librarian'')])
   \<and> rolesOk (run literalConfig emptyStore
       (bootstrap @ [PatchRole ''admin@gmail.com'' ''65a1b2c3d4e5f60718293a03'' (JStr ''librarian'')]))
   \<and> map role (users (run literalConfig emptyStore
       (bootstrap @ [PatchRole ''admin@gmail.com'' ''65a1b2c3d4e5f60718293a03'' (JStr ''librarian'')])))
      = [JStr ''admin'', JStr ''librarian'']
   \<and> hasRole sampleStore ''admin@gmail.com'' ''admin''
   \<and> ObjectId ''65a1b2c3d4e5f60718293a03'' = Some ''65a1b2c3d4e5f60718293a03''
   \<and> find (\<lambda>u. user_id u = ''65a1b2c3d4e5f60718293a03'') (users sampleStore) = Some readerUser
   \<and> find (\<lambda>u. user_id u = ''65a1b2c3d4e5f60718293a03'')
        (users (snd (updateRole sampleStore ''admin@gmail.com'' ''65a1b2c3d4e5f60718293a03'' JUndef)))
      = Some (readerUser\<lparr>role := JNull\<rparr>)"
proof -
  let ?rs = "bootstrap @ [PatchRole ''admin@gmail.com'' ''65a1b2c3d4e5f60718293a03'' (JStr ''librarian'')]"
  have h1: "rolesOk emptyStore"
    by (simp add: rolesOk_def emptyStore_def)
  have h2: "list_all roleRequestOk ?rs"
    by (simp add: bootstrap_def validRoles_def)
  have e: "map role (users (run literalConfig emptyStore ?rs)) = [JStr ''admin'', JStr ''librarian'']"
    by (simp only: run_snoc run_bootstrap patch_reader_role)
       (simp add: adminUser_def readerUser_def)
  have h3: "hasRole sampleStore ''admin@gmail.com'' ''admin''"
    by (simp add: hasRole_def sample_defs)
  have h4: "ObjectId ''65a1b2c3d4e5f60718293a03'' = Some ''65a1b2c3d4e5f60718293a03''"
    by (simp add: id_defs)
  have h5: "find (\<lambda>u. user_id u = ''65a1b2c3d4e5f60718293a03'') (users sampleStore) = Some readerUser"
    by (simp add: sample_defs)
  note t = roles_invariant[where cfg = literalConfig and email = "''admin@gmail.com''"]
  from h1 h2 t[where s = emptyStore and rs = ?rs]
  have c1: "rolesOk (run literalConfig emptyStore ?rs)" by blast
  from h3 h4 h5 t[where s = sampleStore and p = "''65a1b2c3d4e5f60718293a03''"
      and i = "''65a1b2c3d4e5f60718293a03''" and u = readerUser and r = JUndef]
  have c2: "find (\<lambda>u. user_id u = ''65a1b2c3d4e5f60718293a03'')
        (users (snd (updateRole sampleStore ''admin@gmail.com'' ''65a1b2c3d4e5f60718293a03'' JUndef)))
      = Some (readerUser\<lparr>role := JNull\<rparr>)"
    by simp
  from h1 h2 c1 e h3 h4 h5 c2 show ?thesis by blast
qed

section \<open>Order status updates by a librarian\<close>

lemma cancelled_not_valid: "''cancelled'' \<notin> set validStatus"
  by (simp add: validStatus_def)

lemma updateStatus_outcomes:
  assumes "hasRole s email ''librarian''"
  shows "(status \<notin> JStr ` set validStatus \<longrightarrow> updateStatus s email p status = (BadRequest, s))
   \<and> (status \<in> JStr ` set validStatus \<and> ObjectId p = Some i
        \<and> find (\<lambda>od. order_id od = i) (orders s) = None
        \<longrightarrow> updateStatus s email p status = (NotFound, s))
   \<and> (status \<in> JStr ` set validStatus \<and> ObjectId p = Some i
        \<and> find (\<lambda>od. order_id od = i) (orders s) = Some od
        \<and> lookupBook (books s) (bookId od) = Some (Some b) \<and> librarianEmail b \<noteq> email
        \<longrightarrow> updateStatus s email p status = (Forbidden, s))
   \<and> (status \<in> JStr ` set validStatus \<and> ObjectId p = Some i
        \<and> find (\<lambda>od. order_id od = i) (orders s) = Some od
        \<and> lookupBook (books s) (bookId od) = Some None
        \<longrightarrow> updateStatus s email p status = (Thrown, s))"
  using assms by (cases status) (auto simp: updateStatus_def)

text \<open>
  C3. The claim says that updateStatus fails NotFound when the order's referenced
  book is absent. The handler checks \<open>!order\<close> but not \<open>!book\<close>: for the sample
  store's second order, whose \<open>bookId\<close> is well-formed but names no book, a valid
  status sent by a librarian makes the handler read \<open>book.librarianEmail\<close> of
  \<open>null\<close> and throw; no NotFound reply is sent.
\<close>

theorem updateStatus_missing_book_throws:
  "hasRole sampleStore ''librarian@gmail.com'' ''librarian''
   \<and> find (\<lambda>od. order_id od = ''65a1b2c3d4e5f60718293c02'') (orders sampleStore) = Some orderB
   \<and> bookId orderB = JStr ''65a1b2c3d4e5f60718293bff''
   \<and> ''65a1b2c3d4e5f60718293bff'' \<notin> book_id ` set (books sampleStore)
   \<and> updateStatus sampleStore ''librarian@gmail.com'' ''65a1b2c3d4e5f60718293c02'' (JStr ''shipped'')
       = (Thrown, sampleStore)
   \<and> fst (updateStatus sampleStore ''librarian@gmail.com'' ''65a1b2c3d4e5f60718293c02''
            (JStr ''shipped'')) \<noteq> NotFound"
  by (simp add: updateStatus_def hasRole_def validStatus_def lookupBook_def id_defs sample_defs)

section \<open>Unique ids in reachable stores\<close>

text \<open>
  The hypothesis of unique ids used for the cascade delete holds in every store that
  the handlers can build from the empty one: inserts are checked against the index,
  updates keep ids, deletions only remove documents.
\<close>

lemma insertOne_distinct:
  "distinct (map k xs) \<Longrightarrow> insertOne k d xs = Some ys \<Longrightarrow> distinct (map k ys)"
  by (auto simp: insertOne_def split: if_splits)

lemma updateOne_distinct:
  "(\<And>x. k (f x) = k x) \<Longrightarrow> distinct (map k xs) \<Longrightarrow> distinct (map k (fst (updateOne P f xs)))"
  by (simp add: updateOne_map_key)

lemma uniqueIds_loginOrCreate:
  "uniqueIds s \<Longrightarrow> uniqueIds (snd (loginOrCreate cfg s e u n p t i))"
  by (auto simp: loginOrCreate_def uniqueIds_def Let_def insertOne_def split: option.split if_splits)

lemma uniqueIds_publishCandidate:
  "uniqueIds s \<Longrightarrow> uniqueIds (snd (publishCandidate s e b t i))"
  by (auto simp: publishCandidate_def uniqueIds_def Let_def insertOne_def split: option.split if_splits)

lemma uniqueIds_place:
  "uniqueIds s \<Longrightarrow> uniqueIds (snd (place s e b t i))"
  by (auto simp: place_def uniqueIds_def newOrder_def insertOne_def split: option.split if_splits)

lemma uniqueIds_updateOwned:
  "uniqueIds s \<Longrightarrow> uniqueIds (snd (updateOwned s e p pt))"
  by (simp add: updateOwned_def uniqueIds_def Let_def updateOne_distinct applyPatch_def
        split: option.split)

lemma uniqueIds_setStatus:
  "uniqueIds s \<Longrightarrow> uniqueIds (snd (setStatus s e p st))"
  by (simp add: setStatus_def uniqueIds_def Let_def updateOne_distinct split: option.split)

lemma uniqueIds_deleteCascade:
  "uniqueIds s \<Longrightarrow> uniqueIds (snd (deleteCascade s e p))"
  by (simp add: deleteCascade_def uniqueIds_def Let_def deleteMany_def deleteOne_distinct_keep
        distinct_map_filter split: option.split)

lemma uniqueIds_ownOrderUpdate:
  "(\<And>x. order_id (f x) = order_id x) \<Longrightarrow> uniqueIds s \<Longrightarrow> uniqueIds (snd (ownOrderUpdate f s e p))"
  by (simp add: ownOrderUpdate_def uniqueIds_def Let_def updateOne_distinct split: option.split)

lemma uniqueIds_updateStatus:
  "uniqueIds s \<Longrightarrow> uniqueIds (snd (updateStatus s e p st))"
  by (simp add: updateStatus_def uniqueIds_def Let_def updateOne_distinct
        split: option.split jv.split)

lemma uniqueIds_updateRole:
  "uniqueIds s \<Longrightarrow> uniqueIds (snd (updateRole s e p r))"
  by (simp add: updateRole_def uniqueIds_def Let_def updateOne_distinct split: option.split)

lemma uniqueIds_exec: "uniqueIds s \<Longrightarrow> uniqueIds (exec cfg s rq)"
  by (cases rq)
     (simp_all add: uniqueIds_loginOrCreate uniqueIds_publishCandidate uniqueIds_place
        uniqueIds_updateOwned uniqueIds_setStatus uniqueIds_deleteCascade
        uniqueIds_ownOrderUpdate uniqueIds_updateStatus uniqueIds_updateRole pay_def cancel_def)

lemma uniqueIds_run: "uniqueIds s \<Longrightarrow> uniqueIds (run cfg s rs)"
  unfolding run_def by (induction rs arbitrary: s) (simp_all add: uniqueIds_exec)

lemma uniqueIds_reachable: "uniqueIds (run cfg emptyStore rs)"
  by (rule uniqueIds_run) (simp add: uniqueIds_def emptyStore_def)

end
